theory Spec2Isabelle
  imports Main "HOL-Library.Char_ord" "HOL-Library.List_Lexorder" "HOL-Library.Product_Lexorder"
    "HOL-Library.Multiset"
begin

section \<open>The resource model of gwctl (pkg/resourcediscovery/resourcemodel.go)\<close>

text \<open>
  The Go program keeps every node of a kind in one map of the \<open>ResourceModel\<close>,
  keyed by the node's identity, and lets nodes point at each other. A pointer to a
  node is always taken out of one of those maps and nodes are never removed or
  replaced there, so the model stores a cross-reference as the identity of the
  node it points to and reads the node back through the model's map (an arena).
  Policy nodes are the exception: \<open>rm.Policies[id]\<close> is overwritten without a
  check, so a node's local policy map stores the policy node itself.

  Go's \<open>range\<close> over a map visits the keys in an order that is not fixed. Every
  loop over a map takes the order of that visit as an explicit list of keys.
\<close>

subsection \<open>Identities\<close>

text \<open>
  Modelled from the spec: the identity constructors \<open>GatewayClassID\<close>,
  \<open>NamespaceID\<close>, \<open>GatewayID\<close>, \<open>HTTPRouteID\<close>, \<open>BackendID\<close> and the identity
  types are declared in a file that is not part of the sources at hand. The spec
  describes them as pure, comparable values computed from the natural key: the
  name, or namespace and name, or group, kind, namespace and name.
\<close>

datatype gatewayClassID = GatewayClassID string
datatype namespaceID = NamespaceID string
datatype gatewayID = GatewayID string string
datatype httpRouteID = HTTPRouteID string string
datatype backendID = BackendID string string string string
datatype referenceGrantID = ReferenceGrantID string string
datatype policyID = PolicyID string string string string

subsection \<open>Decoded resources\<close>

text \<open>
  Modelled from the spec: the resource types come from the Kubernetes and
  Gateway API libraries. Only the natural key of a resource takes part in the
  algorithms; the field \<open>body\<close> stands for the rest of the decoded object.
\<close>

record GatewayClass =
  gwc_name :: string
  gwc_body :: string

record Namespace =
  ns_name :: string
  ns_body :: string

record Gateway =
  gw_namespace :: string
  gw_name :: string
  gw_body :: string

record HTTPRoute =
  hr_namespace :: string
  hr_name :: string
  hr_body :: string

record ReferenceGrant =
  rg_namespace :: string
  rg_name :: string
  rg_body :: string

text \<open>\<open>unstructured.Unstructured\<close>: a backend, and the object inside a policy.\<close>

record Unstructured =
  u_group :: string
  u_kind :: string
  u_namespace :: string
  u_name :: string
  u_body :: string

subsection \<open>The policy capability\<close>

text \<open>
  Modelled from the spec: package \<open>policymanager\<close> is not part of the sources at
  hand. A policy exposes \<open>TargetRef()\<close> (group, kind, namespace, name), \<open>Name()\<close>,
  \<open>IsInherited()\<close>, \<open>PolicyCrdID()\<close> (the merge-kind identifier) and
  \<open>Unstructured()\<close>.
\<close>

record ObjRef =
  ref_Group :: string
  ref_Kind :: string
  ref_Namespace :: string
  ref_Name :: string

type_synonym PolicyCrdID = string

record Policy =
  p_TargetRef :: ObjRef
  p_Name :: string
  p_IsInherited :: bool
  p_PolicyCrdID :: PolicyCrdID
  p_Unstructured :: Unstructured

text \<open>
  A Go value of type \<open>map[PolicyCrdID]Policy\<close>: \<open>None\<close> is the nil map, which is
  what a computed field holds before its pass has run.
\<close>

type_synonym policyMap = "(PolicyCrdID \<rightharpoonup> Policy) option"

text \<open>
  The three merge operations of the capability, each fallible with a conflict
  error. They are parameters of the resolution passes.
\<close>

record capability =
  MergePoliciesOfSimilarKind :: "Policy list \<Rightarrow> string + policyMap"
  MergePoliciesOfDifferentHierarchy :: "policyMap \<Rightarrow> policyMap \<Rightarrow> string + policyMap"
  MergePoliciesOfSameHierarchy :: "policyMap \<Rightarrow> policyMap \<Rightarrow> string + policyMap"

subsection \<open>Nodes\<close>

text \<open>
  Modelled from the spec: the node types and their constructors are declared in a
  file that is not part of the sources at hand. The fields are the ones
  resourcemodel.go reads and writes. A single reference is \<open>None\<close> while it is
  nil; a map from identities to nodes of the model is the set of its keys.
\<close>

record PolicyNode =
  pn_Policy :: Policy
  pn_GatewayClass :: "gatewayClassID option"
  pn_Namespace :: "namespaceID option"
  pn_Gateway :: "gatewayID option"
  pn_HTTPRoute :: "httpRouteID option"
  pn_Backend :: "backendID option"

type_synonym policies = "policyID \<rightharpoonup> PolicyNode"

record GatewayClassNode =
  gwcn_GatewayClass :: GatewayClass
  gwcn_Gateways :: "gatewayID set"
  gwcn_Policies :: policies

record NamespaceNode =
  nsn_Namespace :: Namespace
  nsn_Gateways :: "gatewayID set"
  nsn_HTTPRoutes :: "httpRouteID set"
  nsn_Backends :: "backendID set"
  nsn_Policies :: policies

record GatewayNode =
  gwn_Gateway :: Gateway
  gwn_GatewayClass :: "gatewayClassID option"
  gwn_Namespace :: "namespaceID option"
  gwn_HTTPRoutes :: "httpRouteID set"
  gwn_Policies :: policies
  gwn_EffectivePolicies :: policyMap
  gwn_InheritedPolicies :: "policies option"

record HTTPRouteNode =
  hrn_HTTPRoute :: HTTPRoute
  hrn_Namespace :: "namespaceID option"
  hrn_Gateways :: "gatewayID set"
  hrn_Backends :: "backendID set"
  hrn_Policies :: policies
  hrn_EffectivePolicies :: "(gatewayID \<rightharpoonup> policyMap) option"
  hrn_InheritedPolicies :: "policies option"

record BackendNode =
  bkn_Backend :: Unstructured
  bkn_Namespace :: "namespaceID option"
  bkn_HTTPRoutes :: "httpRouteID set"
  bkn_ReferenceGrants :: "referenceGrantID set"
  bkn_Policies :: policies
  bkn_EffectivePolicies :: "(gatewayID \<rightharpoonup> policyMap) option"
  bkn_InheritedPolicies :: "policies option"

record ReferenceGrantNode =
  rgn_ReferenceGrant :: ReferenceGrant
  rgn_Backends :: "backendID set"

definition NewGatewayClassNode :: "GatewayClass \<Rightarrow> GatewayClassNode" where
  "NewGatewayClassNode gatewayClass =
     \<lparr>gwcn_GatewayClass = gatewayClass, gwcn_Gateways = {}, gwcn_Policies = Map.empty\<rparr>"

definition NewNamespaceNode :: "Namespace \<Rightarrow> NamespaceNode" where
  "NewNamespaceNode namespace =
     \<lparr>nsn_Namespace = namespace, nsn_Gateways = {}, nsn_HTTPRoutes = {},
      nsn_Backends = {}, nsn_Policies = Map.empty\<rparr>"

definition NewGatewayNode :: "Gateway \<Rightarrow> GatewayNode" where
  "NewGatewayNode gateway =
     \<lparr>gwn_Gateway = gateway, gwn_GatewayClass = None, gwn_Namespace = None,
      gwn_HTTPRoutes = {}, gwn_Policies = Map.empty, gwn_EffectivePolicies = None,
      gwn_InheritedPolicies = None\<rparr>"

definition NewHTTPRouteNode :: "HTTPRoute \<Rightarrow> HTTPRouteNode" where
  "NewHTTPRouteNode httpRoute =
     \<lparr>hrn_HTTPRoute = httpRoute, hrn_Namespace = None, hrn_Gateways = {},
      hrn_Backends = {}, hrn_Policies = Map.empty, hrn_EffectivePolicies = None,
      hrn_InheritedPolicies = None\<rparr>"

definition NewBackendNode :: "Unstructured \<Rightarrow> BackendNode" where
  "NewBackendNode backend =
     \<lparr>bkn_Backend = backend, bkn_Namespace = None, bkn_HTTPRoutes = {},
      bkn_ReferenceGrants = {}, bkn_Policies = Map.empty, bkn_EffectivePolicies = None,
      bkn_InheritedPolicies = None\<rparr>"

definition NewReferenceGrantNode :: "ReferenceGrant \<Rightarrow> ReferenceGrantNode" where
  "NewReferenceGrantNode referenceGrant =
     \<lparr>rgn_ReferenceGrant = referenceGrant, rgn_Backends = {}\<rparr>"

definition NewPolicyNode :: "Policy \<Rightarrow> PolicyNode" where
  "NewPolicyNode policy =
     \<lparr>pn_Policy = policy, pn_GatewayClass = None, pn_Namespace = None,
      pn_Gateway = None, pn_HTTPRoute = None, pn_Backend = None\<rparr>"

text \<open>The method \<open>ID()\<close> of each node type.\<close>

definition gwcn_ID :: "GatewayClassNode \<Rightarrow> gatewayClassID" where
  "gwcn_ID n = GatewayClassID (gwc_name (gwcn_GatewayClass n))"

definition nsn_ID :: "NamespaceNode \<Rightarrow> namespaceID" where
  "nsn_ID n = NamespaceID (ns_name (nsn_Namespace n))"

definition gwn_ID :: "GatewayNode \<Rightarrow> gatewayID" where
  "gwn_ID n = GatewayID (gw_namespace (gwn_Gateway n)) (gw_name (gwn_Gateway n))"

definition hrn_ID :: "HTTPRouteNode \<Rightarrow> httpRouteID" where
  "hrn_ID n = HTTPRouteID (hr_namespace (hrn_HTTPRoute n)) (hr_name (hrn_HTTPRoute n))"

definition bkn_ID :: "BackendNode \<Rightarrow> backendID" where
  "bkn_ID n = BackendID (u_group (bkn_Backend n)) (u_kind (bkn_Backend n))
                        (u_namespace (bkn_Backend n)) (u_name (bkn_Backend n))"

definition rgn_ID :: "ReferenceGrantNode \<Rightarrow> referenceGrantID" where
  "rgn_ID n = ReferenceGrantID (rg_namespace (rgn_ReferenceGrant n)) (rg_name (rgn_ReferenceGrant n))"

definition pn_ID :: "PolicyNode \<Rightarrow> policyID" where
  "pn_ID n = (let u = p_Unstructured (pn_Policy n)
              in PolicyID (u_group u) (u_kind u) (u_namespace u) (u_name u))"

subsection \<open>The model\<close>

text \<open>
  A nil map of the model reads like an empty one, and the insertion operations
  allocate it before they write, so each map of the model is a partial function.
\<close>

record ResourceModel =
  GatewayClasses :: "gatewayClassID \<rightharpoonup> GatewayClassNode"
  Namespaces :: "namespaceID \<rightharpoonup> NamespaceNode"
  Gateways :: "gatewayID \<rightharpoonup> GatewayNode"
  HTTPRoutes :: "httpRouteID \<rightharpoonup> HTTPRouteNode"
  Backends :: "backendID \<rightharpoonup> BackendNode"
  ReferenceGrants :: "referenceGrantID \<rightharpoonup> ReferenceGrantNode"
  Policies :: policies

definition emptyModel :: ResourceModel where
  "emptyModel = \<lparr>GatewayClasses = Map.empty, Namespaces = Map.empty, Gateways = Map.empty,
                 HTTPRoutes = Map.empty, Backends = Map.empty, ReferenceGrants = Map.empty,
                 Policies = Map.empty\<rparr>"

subsection \<open>Insertion\<close>

text \<open>
  Each \<open>add\<close> operation walks its batch and stores a new node only when the model
  has no node of that identity yet.
\<close>

fun addGatewayClasses :: "ResourceModel \<Rightarrow> GatewayClass list \<Rightarrow> ResourceModel" where
  "addGatewayClasses rm [] = rm"
| "addGatewayClasses rm (gatewayClass # rest) =
     (let gatewayClassNode = NewGatewayClassNode gatewayClass
      in addGatewayClasses
           (case GatewayClasses rm (gwcn_ID gatewayClassNode) of
              None \<Rightarrow> rm\<lparr>GatewayClasses := (GatewayClasses rm)(gwcn_ID gatewayClassNode \<mapsto> gatewayClassNode)\<rparr>
            | Some _ \<Rightarrow> rm)
           rest)"

fun addNamespace :: "ResourceModel \<Rightarrow> Namespace list \<Rightarrow> ResourceModel" where
  "addNamespace rm [] = rm"
| "addNamespace rm (namespace # rest) =
     (let namespaceNode = NewNamespaceNode namespace
      in addNamespace
           (case Namespaces rm (nsn_ID namespaceNode) of
              None \<Rightarrow> rm\<lparr>Namespaces := (Namespaces rm)(nsn_ID namespaceNode \<mapsto> namespaceNode)\<rparr>
            | Some _ \<Rightarrow> rm)
           rest)"

fun addGateways :: "ResourceModel \<Rightarrow> Gateway list \<Rightarrow> ResourceModel" where
  "addGateways rm [] = rm"
| "addGateways rm (gateway # rest) =
     (let gatewayNode = NewGatewayNode gateway
      in addGateways
           (case Gateways rm (gwn_ID gatewayNode) of
              None \<Rightarrow> rm\<lparr>Gateways := (Gateways rm)(gwn_ID gatewayNode \<mapsto> gatewayNode)\<rparr>
            | Some _ \<Rightarrow> rm)
           rest)"

fun addHTTPRoutes :: "ResourceModel \<Rightarrow> HTTPRoute list \<Rightarrow> ResourceModel" where
  "addHTTPRoutes rm [] = rm"
| "addHTTPRoutes rm (httpRoute # rest) =
     (let httpRouteNode = NewHTTPRouteNode httpRoute
      in addHTTPRoutes
           (case HTTPRoutes rm (hrn_ID httpRouteNode) of
              None \<Rightarrow> rm\<lparr>HTTPRoutes := (HTTPRoutes rm)(hrn_ID httpRouteNode \<mapsto> httpRouteNode)\<rparr>
            | Some _ \<Rightarrow> rm)
           rest)"

fun addBackends :: "ResourceModel \<Rightarrow> Unstructured list \<Rightarrow> ResourceModel" where
  "addBackends rm [] = rm"
| "addBackends rm (backend # rest) =
     (let backendNode = NewBackendNode backend
      in addBackends
           (case Backends rm (bkn_ID backendNode) of
              None \<Rightarrow> rm\<lparr>Backends := (Backends rm)(bkn_ID backendNode \<mapsto> backendNode)\<rparr>
            | Some _ \<Rightarrow> rm)
           rest)"

fun addReferenceGrants :: "ResourceModel \<Rightarrow> ReferenceGrant list \<Rightarrow> ResourceModel" where
  "addReferenceGrants rm [] = rm"
| "addReferenceGrants rm (referenceGrant # rest) =
     (let referenceGrantNode = NewReferenceGrantNode referenceGrant
      in addReferenceGrants
           (case ReferenceGrants rm (rgn_ID referenceGrantNode) of
              None \<Rightarrow> rm\<lparr>ReferenceGrants := (ReferenceGrants rm)(rgn_ID referenceGrantNode \<mapsto> referenceGrantNode)\<rparr>
            | Some _ \<Rightarrow> rm)
           rest)"


subsection \<open>Diagnostics\<close>

text \<open>
  The operations report a missing endpoint through \<open>klog.V(1).ErrorS\<close> and go on.
  \<open>SkippingPolicy\<close> carries the policy's name and the identity that was looked
  up ("Skipping policy since targetRef ... does not exist in ResourceModel"),
  \<open>DoesNotExist\<close> the identity that was looked up ("... does not exist in
  ResourceModel").
\<close>

datatype nodeID =
    GatewayClassRef gatewayClassID
  | NamespaceRef namespaceID
  | GatewayRef gatewayID
  | HTTPRouteRef httpRouteID
  | BackendRef backendID
  | ReferenceGrantRef referenceGrantID

datatype diagnostic = SkippingPolicy string nodeID | DoesNotExist nodeID

text \<open>
  \<open>klog.V(level)\<close> is enabled when the verbosity of the process (the \<open>-v\<close> flag
  of the logging library, 0 unless set) is at least \<open>level\<close>; \<open>ErrorS\<close> on a level
  that is not enabled writes nothing. The verbosity is configured outside this
  package: the operations take it as a parameter and return the entries they
  write.
\<close>

definition klog_V_ErrorS :: "nat \<Rightarrow> nat \<Rightarrow> diagnostic \<Rightarrow> diagnostic list" where
  "klog_V_ErrorS level verbosity entry = (if level \<le> verbosity then [entry] else [])"

subsection \<open>Attaching policies\<close>

text \<open>
  The group names are constants of the imported API packages:
  \<open>gatewayv1.GroupName\<close> and \<open>corev1.GroupName\<close> (the core group is the empty
  string).
\<close>

definition gatewayv1_GroupName :: string where
  "gatewayv1_GroupName = ''gateway.networking.k8s.io''"

definition corev1_GroupName :: string where
  "corev1_GroupName = []"

text \<open>
  One turn of the loop of \<open>addPolicyIfTargetExists\<close>. In the routing group the
  inner \<open>switch\<close> on the kind has no default branch: any other kind falls out of
  both switches with nothing done.
\<close>

definition attachPolicy :: "nat \<Rightarrow> ResourceModel \<Rightarrow> Policy \<Rightarrow> diagnostic list \<times> ResourceModel" where
  "attachPolicy verbosity rm policy =
     (let policyNode = NewPolicyNode policy; targetRef = p_TargetRef policy in
      if ref_Group targetRef = gatewayv1_GroupName then
        (if ref_Kind targetRef = ''GatewayClass'' then
           (let gwcID = GatewayClassID (ref_Name targetRef) in
            case GatewayClasses rm gwcID of
              None \<Rightarrow> (klog_V_ErrorS 1 verbosity (SkippingPolicy (p_Name policy) (GatewayClassRef gwcID)), rm)
            | Some gatewayClassNode \<Rightarrow>
                (let policyNode = policyNode\<lparr>pn_GatewayClass := Some gwcID\<rparr> in
                 ([], rm\<lparr>Policies := (Policies rm)(pn_ID policyNode \<mapsto> policyNode),
                         GatewayClasses := (GatewayClasses rm)(gwcID \<mapsto>
                           gatewayClassNode\<lparr>gwcn_Policies :=
                             (gwcn_Policies gatewayClassNode)(pn_ID policyNode \<mapsto> policyNode)\<rparr>)\<rparr>)))
         else if ref_Kind targetRef = ''Gateway'' then
           (let gwID = GatewayID (ref_Namespace targetRef) (ref_Name targetRef) in
            case Gateways rm gwID of
              None \<Rightarrow> (klog_V_ErrorS 1 verbosity (SkippingPolicy (p_Name policy) (GatewayRef gwID)), rm)
            | Some gatewayNode \<Rightarrow>
                (let policyNode = policyNode\<lparr>pn_Gateway := Some gwID\<rparr> in
                 ([], rm\<lparr>Policies := (Policies rm)(pn_ID policyNode \<mapsto> policyNode),
                         Gateways := (Gateways rm)(gwID \<mapsto>
                           gatewayNode\<lparr>gwn_Policies :=
                             (gwn_Policies gatewayNode)(pn_ID policyNode \<mapsto> policyNode)\<rparr>)\<rparr>)))
         else if ref_Kind targetRef = ''HTTPRoute'' then
           (let hrID = HTTPRouteID (ref_Namespace targetRef) (ref_Name targetRef) in
            case HTTPRoutes rm hrID of
              None \<Rightarrow> (klog_V_ErrorS 1 verbosity (SkippingPolicy (p_Name policy) (HTTPRouteRef hrID)), rm)
            | Some httpRouteNode \<Rightarrow>
                (let policyNode = policyNode\<lparr>pn_HTTPRoute := Some hrID\<rparr> in
                 ([], rm\<lparr>Policies := (Policies rm)(pn_ID policyNode \<mapsto> policyNode),
                         HTTPRoutes := (HTTPRoutes rm)(hrID \<mapsto>
                           httpRouteNode\<lparr>hrn_Policies :=
                             (hrn_Policies httpRouteNode)(pn_ID policyNode \<mapsto> policyNode)\<rparr>)\<rparr>)))
         else ([], rm))
      else if ref_Group targetRef = corev1_GroupName \<and> ref_Kind targetRef = ''Namespace'' then
        (let nsID = NamespaceID (ref_Name targetRef) in
         case Namespaces rm nsID of
           None \<Rightarrow> (klog_V_ErrorS 1 verbosity (SkippingPolicy (p_Name policy) (NamespaceRef nsID)), rm)
         | Some namespaceNode \<Rightarrow>
             (let policyNode = policyNode\<lparr>pn_Namespace := Some nsID\<rparr> in
              ([], rm\<lparr>Policies := (Policies rm)(pn_ID policyNode \<mapsto> policyNode),
                      Namespaces := (Namespaces rm)(nsID \<mapsto>
                        namespaceNode\<lparr>nsn_Policies :=
                          (nsn_Policies namespaceNode)(pn_ID policyNode \<mapsto> policyNode)\<rparr>)\<rparr>)))
      else
        (let bID = BackendID (ref_Group targetRef) (ref_Kind targetRef)
                             (ref_Namespace targetRef) (ref_Name targetRef) in
         case Backends rm bID of
           None \<Rightarrow> (klog_V_ErrorS 1 verbosity (SkippingPolicy (p_Name policy) (BackendRef bID)), rm)
         | Some backendNode \<Rightarrow>
             (let policyNode = policyNode\<lparr>pn_Backend := Some bID\<rparr> in
              ([], rm\<lparr>Policies := (Policies rm)(pn_ID policyNode \<mapsto> policyNode),
                      Backends := (Backends rm)(bID \<mapsto>
                        backendNode\<lparr>bkn_Policies :=
                          (bkn_Policies backendNode)(pn_ID policyNode \<mapsto> policyNode)\<rparr>)\<rparr>))))"

fun addPolicyIfTargetExists :: "nat \<Rightarrow> ResourceModel \<Rightarrow> Policy list \<Rightarrow> diagnostic list \<times> ResourceModel" where
  "addPolicyIfTargetExists verbosity rm [] = ([], rm)"
| "addPolicyIfTargetExists verbosity rm (policy # rest) =
     (case attachPolicy verbosity rm policy of
        (ds, rm') \<Rightarrow> (case addPolicyIfTargetExists verbosity rm' rest of (ds', rm'') \<Rightarrow> (ds @ ds', rm'')))"

subsection \<open>Connecting nodes\<close>

definition connectGatewayWithGatewayClass ::
  "nat \<Rightarrow> ResourceModel \<Rightarrow> gatewayID \<Rightarrow> gatewayClassID \<Rightarrow> diagnostic list \<times> ResourceModel" where
  "connectGatewayWithGatewayClass verbosity rm gatewayID gatewayClassID =
     (case Gateways rm gatewayID of
        None \<Rightarrow> (klog_V_ErrorS 1 verbosity (DoesNotExist (GatewayRef gatewayID)), rm)
      | Some gatewayNode \<Rightarrow>
          (case GatewayClasses rm gatewayClassID of
             None \<Rightarrow> (klog_V_ErrorS 1 verbosity (DoesNotExist (GatewayClassRef gatewayClassID)), rm)
           | Some gatewayClassNode \<Rightarrow>
               ([], rm\<lparr>Gateways := (Gateways rm)(gatewayID \<mapsto>
                         gatewayNode\<lparr>gwn_GatewayClass := Some gatewayClassID\<rparr>),
                       GatewayClasses := (GatewayClasses rm)(gatewayClassID \<mapsto>
                         gatewayClassNode\<lparr>gwcn_Gateways :=
                           insert gatewayID (gwcn_Gateways gatewayClassNode)\<rparr>)\<rparr>)))"

definition connectHTTPRouteWithGateway ::
  "nat \<Rightarrow> ResourceModel \<Rightarrow> httpRouteID \<Rightarrow> gatewayID \<Rightarrow> diagnostic list \<times> ResourceModel" where
  "connectHTTPRouteWithGateway verbosity rm httpRouteID gatewayID =
     (case HTTPRoutes rm httpRouteID of
        None \<Rightarrow> (klog_V_ErrorS 1 verbosity (DoesNotExist (HTTPRouteRef httpRouteID)), rm)
      | Some httpRouteNode \<Rightarrow>
          (case Gateways rm gatewayID of
             None \<Rightarrow> (klog_V_ErrorS 1 verbosity (DoesNotExist (GatewayRef gatewayID)), rm)
           | Some gatewayNode \<Rightarrow>
               ([], rm\<lparr>HTTPRoutes := (HTTPRoutes rm)(httpRouteID \<mapsto>
                         httpRouteNode\<lparr>hrn_Gateways :=
                           insert gatewayID (hrn_Gateways httpRouteNode)\<rparr>),
                       Gateways := (Gateways rm)(gatewayID \<mapsto>
                         gatewayNode\<lparr>gwn_HTTPRoutes :=
                           insert httpRouteID (gwn_HTTPRoutes gatewayNode)\<rparr>)\<rparr>)))"

definition connectHTTPRouteWithBackend ::
  "nat \<Rightarrow> ResourceModel \<Rightarrow> httpRouteID \<Rightarrow> backendID \<Rightarrow> diagnostic list \<times> ResourceModel" where
  "connectHTTPRouteWithBackend verbosity rm httpRouteID backendID =
     (case HTTPRoutes rm httpRouteID of
        None \<Rightarrow> (klog_V_ErrorS 1 verbosity (DoesNotExist (HTTPRouteRef httpRouteID)), rm)
      | Some httpRouteNode \<Rightarrow>
          (case Backends rm backendID of
             None \<Rightarrow> (klog_V_ErrorS 1 verbosity (DoesNotExist (BackendRef backendID)), rm)
           | Some backendNode \<Rightarrow>
               ([], rm\<lparr>HTTPRoutes := (HTTPRoutes rm)(httpRouteID \<mapsto>
                         httpRouteNode\<lparr>hrn_Backends :=
                           insert backendID (hrn_Backends httpRouteNode)\<rparr>),
                       Backends := (Backends rm)(backendID \<mapsto>
                         backendNode\<lparr>bkn_HTTPRoutes :=
                           insert httpRouteID (bkn_HTTPRoutes backendNode)\<rparr>)\<rparr>)))"

definition connectGatewayWithNamespace ::
  "nat \<Rightarrow> ResourceModel \<Rightarrow> gatewayID \<Rightarrow> namespaceID \<Rightarrow> diagnostic list \<times> ResourceModel" where
  "connectGatewayWithNamespace verbosity rm gatewayID namespaceID =
     (case Gateways rm gatewayID of
        None \<Rightarrow> (klog_V_ErrorS 1 verbosity (DoesNotExist (GatewayRef gatewayID)), rm)
      | Some gatewayNode \<Rightarrow>
          (case Namespaces rm namespaceID of
             None \<Rightarrow> (klog_V_ErrorS 1 verbosity (DoesNotExist (NamespaceRef namespaceID)), rm)
           | Some namespaceNode \<Rightarrow>
               ([], rm\<lparr>Gateways := (Gateways rm)(gatewayID \<mapsto>
                         gatewayNode\<lparr>gwn_Namespace := Some namespaceID\<rparr>),
                       Namespaces := (Namespaces rm)(namespaceID \<mapsto>
                         namespaceNode\<lparr>nsn_Gateways :=
                           insert gatewayID (nsn_Gateways namespaceNode)\<rparr>)\<rparr>)))"

definition connectHTTPRouteWithNamespace ::
  "nat \<Rightarrow> ResourceModel \<Rightarrow> httpRouteID \<Rightarrow> namespaceID \<Rightarrow> diagnostic list \<times> ResourceModel" where
  "connectHTTPRouteWithNamespace verbosity rm httpRouteID namespaceID =
     (case HTTPRoutes rm httpRouteID of
        None \<Rightarrow> (klog_V_ErrorS 1 verbosity (DoesNotExist (HTTPRouteRef httpRouteID)), rm)
      | Some httpRouteNode \<Rightarrow>
          (case Namespaces rm namespaceID of
             None \<Rightarrow> (klog_V_ErrorS 1 verbosity (DoesNotExist (NamespaceRef namespaceID)), rm)
           | Some namespaceNode \<Rightarrow>
               ([], rm\<lparr>HTTPRoutes := (HTTPRoutes rm)(httpRouteID \<mapsto>
                         httpRouteNode\<lparr>hrn_Namespace := Some namespaceID\<rparr>),
                       Namespaces := (Namespaces rm)(namespaceID \<mapsto>
                         namespaceNode\<lparr>nsn_HTTPRoutes :=
                           insert httpRouteID (nsn_HTTPRoutes namespaceNode)\<rparr>)\<rparr>)))"

definition connectBackendWithNamespace ::
  "nat \<Rightarrow> ResourceModel \<Rightarrow> backendID \<Rightarrow> namespaceID \<Rightarrow> diagnostic list \<times> ResourceModel" where
  "connectBackendWithNamespace verbosity rm backendID namespaceID =
     (case Backends rm backendID of
        None \<Rightarrow> (klog_V_ErrorS 1 verbosity (DoesNotExist (BackendRef backendID)), rm)
      | Some backendNode \<Rightarrow>
          (case Namespaces rm namespaceID of
             None \<Rightarrow> (klog_V_ErrorS 1 verbosity (DoesNotExist (NamespaceRef namespaceID)), rm)
           | Some namespaceNode \<Rightarrow>
               ([], rm\<lparr>Backends := (Backends rm)(backendID \<mapsto>
                         backendNode\<lparr>bkn_Namespace := Some namespaceID\<rparr>),
                       Namespaces := (Namespaces rm)(namespaceID \<mapsto>
                         namespaceNode\<lparr>nsn_Backends :=
                           insert backendID (nsn_Backends namespaceNode)\<rparr>)\<rparr>)))"

definition connectReferenceGrantWithBackend ::
  "nat \<Rightarrow> ResourceModel \<Rightarrow> referenceGrantID \<Rightarrow> backendID \<Rightarrow> diagnostic list \<times> ResourceModel" where
  "connectReferenceGrantWithBackend verbosity rm referenceGrantID backendID =
     (case ReferenceGrants rm referenceGrantID of
        None \<Rightarrow> (klog_V_ErrorS 1 verbosity (DoesNotExist (ReferenceGrantRef referenceGrantID)), rm)
      | Some referenceGrantNode \<Rightarrow>
          (case Backends rm backendID of
             None \<Rightarrow> (klog_V_ErrorS 1 verbosity (DoesNotExist (BackendRef backendID)), rm)
           | Some backendNode \<Rightarrow>
               ([], rm\<lparr>ReferenceGrants := (ReferenceGrants rm)(referenceGrantID \<mapsto>
                         referenceGrantNode\<lparr>rgn_Backends :=
                           insert backendID (rgn_Backends referenceGrantNode)\<rparr>),
                       Backends := (Backends rm)(backendID \<mapsto>
                         backendNode\<lparr>bkn_ReferenceGrants :=
                           insert referenceGrantID (bkn_ReferenceGrants backendNode)\<rparr>)\<rparr>)))"

text \<open>A connect call as data, to run a sequence of them.\<close>

datatype connectOp =
    GatewayWithGatewayClass gatewayID gatewayClassID
  | HTTPRouteWithGateway httpRouteID gatewayID
  | HTTPRouteWithBackend httpRouteID backendID
  | GatewayWithNamespace gatewayID namespaceID
  | HTTPRouteWithNamespace httpRouteID namespaceID
  | BackendWithNamespace backendID namespaceID
  | ReferenceGrantWithBackend referenceGrantID backendID

fun connect :: "nat \<Rightarrow> ResourceModel \<Rightarrow> connectOp \<Rightarrow> diagnostic list \<times> ResourceModel" where
  "connect verbosity rm (GatewayWithGatewayClass g c) = connectGatewayWithGatewayClass verbosity rm g c"
| "connect verbosity rm (HTTPRouteWithGateway r g) = connectHTTPRouteWithGateway verbosity rm r g"
| "connect verbosity rm (HTTPRouteWithBackend r b) = connectHTTPRouteWithBackend verbosity rm r b"
| "connect verbosity rm (GatewayWithNamespace g n) = connectGatewayWithNamespace verbosity rm g n"
| "connect verbosity rm (HTTPRouteWithNamespace r n) = connectHTTPRouteWithNamespace verbosity rm r n"
| "connect verbosity rm (BackendWithNamespace b n) = connectBackendWithNamespace verbosity rm b n"
| "connect verbosity rm (ReferenceGrantWithBackend x b) = connectReferenceGrantWithBackend verbosity rm x b"

fun connectAll :: "nat \<Rightarrow> ResourceModel \<Rightarrow> connectOp list \<Rightarrow> ResourceModel" where
  "connectAll verbosity rm [] = rm"
| "connectAll verbosity rm (c # cs) = connectAll verbosity (snd (connect verbosity rm c)) cs"

subsection \<open>Iteration order\<close>

text \<open>
  The resolution passes range over maps. \<open>iteration\<close> records, for every such
  loop of one run, the order in which the keys are visited. A call of
  \<open>convertPoliciesMapToSlice\<close> is named by the node whose policies it reads.
\<close>

datatype site =
    ClassOfGateway gatewayID
  | NamespaceOfGateway gatewayID
  | OfGateway gatewayID
  | OfHTTPRoute httpRouteID
  | NamespaceOfHTTPRoute httpRouteID
  | OfBackend backendID
  | NamespaceOfBackend backendID

record iteration =
  rangeGateways :: "gatewayID list"
  rangeHTTPRoutes :: "httpRouteID list"
  rangeBackends :: "backendID list"
  rangePolicies :: "site \<Rightarrow> policyID list"
  rangeGatewaysOfHTTPRoute :: "httpRouteID \<Rightarrow> gatewayID list"
  rangeHTTPRoutesOfBackend :: "backendID \<Rightarrow> httpRouteID list"
  rangeEffectivePoliciesOfHTTPRoute :: "backendID \<Rightarrow> httpRouteID \<Rightarrow> gatewayID list"
  rangeResult :: "backendID \<Rightarrow> gatewayID list"

subsection \<open>Failures\<close>

text \<open>
  A pass ends early in two ways: it returns the error of a merge operation, or it
  reads a field through a nil reference, which panics. A reference of the model
  whose identity is in no map cannot arise in the Go program; reading through it
  is the same \<open>Panic\<close> branch.
\<close>

datatype failure = Err string | Panic

definition deref :: "('k \<rightharpoonup> 'n) \<Rightarrow> 'k option \<Rightarrow> 'n option" where
  "deref m r = (case r of None \<Rightarrow> None | Some k \<Rightarrow> m k)"

subsection \<open>Policies of a node as a sorted slice\<close>

text \<open>
  The comparison of \<open>sort.Slice\<close> formats each policy as
  \<open>fmt.Sprintf("%v/%v/%v", PolicyCrdID, namespace, name)\<close> and compares the two
  strings. Go compares strings byte by byte, a proper prefix being smaller; that
  is the order of \<open>string\<close> here.
\<close>

definition sortKey :: "Policy \<Rightarrow> string" where
  "sortKey p = p_PolicyCrdID p @ ''/'' @ u_namespace (p_Unstructured p) @ ''/'' @
               u_name (p_Unstructured p)"

text \<open>
  \<open>sort.Slice\<close> is the Go library's: it returns the elements in non-decreasing
  order of the comparison and makes no promise on the order of elements that
  compare equal. \<open>sort_key\<close> is one such sort.
\<close>

definition convertPoliciesMapToSlice :: "policyID list \<Rightarrow> policies \<Rightarrow> Policy list" where
  "convertPoliciesMapToSlice order policies =
     sort_key sortKey (List.map_filter (\<lambda>k. map_option pn_Policy (policies k)) order)"

subsection \<open>Effective policies\<close>

text \<open>The body of the loop over the gateways, for a gateway whose class is set.\<close>

definition effectivePoliciesOfGateway ::
  "capability \<Rightarrow> iteration \<Rightarrow> ResourceModel \<Rightarrow> gatewayID \<Rightarrow> GatewayNode \<Rightarrow> failure + policyMap" where
  "effectivePoliciesOfGateway cap it rm g gatewayNode =
     (case deref (GatewayClasses rm) (gwn_GatewayClass gatewayNode) of
        None \<Rightarrow> Inl Panic
      | Some gatewayClassNode \<Rightarrow>
     (let gatewayClassPolicies =
            convertPoliciesMapToSlice (rangePolicies it (ClassOfGateway g)) (gwcn_Policies gatewayClassNode) in
      case deref (Namespaces rm) (gwn_Namespace gatewayNode) of
        None \<Rightarrow> Inl Panic
      | Some namespaceNode \<Rightarrow>
     (let gatewayNamespacePolicies =
            convertPoliciesMapToSlice (rangePolicies it (NamespaceOfGateway g)) (nsn_Policies namespaceNode);
          gatewayPolicies =
            convertPoliciesMapToSlice (rangePolicies it (OfGateway g)) (gwn_Policies gatewayNode) in
      case MergePoliciesOfSimilarKind cap gatewayClassPolicies of
        Inl err \<Rightarrow> Inl (Err err)
      | Inr gatewayClassPoliciesByKind \<Rightarrow>
     (case MergePoliciesOfSimilarKind cap gatewayNamespacePolicies of
        Inl err \<Rightarrow> Inl (Err err)
      | Inr gatewayNamespacePoliciesByKind \<Rightarrow>
     (case MergePoliciesOfSimilarKind cap gatewayPolicies of
        Inl err \<Rightarrow> Inl (Err err)
      | Inr gatewayPoliciesByKind \<Rightarrow>
     (case MergePoliciesOfDifferentHierarchy cap gatewayClassPoliciesByKind gatewayNamespacePoliciesByKind of
        Inl err \<Rightarrow> Inl (Err err)
      | Inr result \<Rightarrow>
     (case MergePoliciesOfDifferentHierarchy cap result gatewayPoliciesByKind of
        Inl err \<Rightarrow> Inl (Err err)
      | Inr result \<Rightarrow> Inr result)))))))"

text \<open>
  The loop over \<open>rm.Gateways\<close>. A gateway whose class reference is nil is passed
  over; the first failure ends the loop, and what was stored before it stays.
\<close>

fun gatewaysLoop ::
  "capability \<Rightarrow> iteration \<Rightarrow> gatewayID list \<Rightarrow> ResourceModel \<Rightarrow> failure option \<times> ResourceModel" where
  "gatewaysLoop cap it [] rm = (None, rm)"
| "gatewaysLoop cap it (g # gs) rm =
     (case Gateways rm g of
        None \<Rightarrow> gatewaysLoop cap it gs rm
      | Some gatewayNode \<Rightarrow>
          (if gwn_GatewayClass gatewayNode = None then gatewaysLoop cap it gs rm
           else
             (case effectivePoliciesOfGateway cap it rm g gatewayNode of
                Inl f \<Rightarrow> (Some f, rm)
              | Inr result \<Rightarrow>
                  gatewaysLoop cap it gs
                    (rm\<lparr>Gateways := (Gateways rm)(g \<mapsto>
                          gatewayNode\<lparr>gwn_EffectivePolicies := result\<rparr>)\<rparr>))))"

definition calculateEffectivePoliciesForGateways ::
  "capability \<Rightarrow> iteration \<Rightarrow> ResourceModel \<Rightarrow> failure option \<times> ResourceModel" where
  "calculateEffectivePoliciesForGateways cap it rm = gatewaysLoop cap it (rangeGateways it) rm"

text \<open>Step 3 of the pass over the routes: the loop over the gateways of one route.\<close>

fun gatewaysOfHTTPRouteLoop ::
  "capability \<Rightarrow> ResourceModel \<Rightarrow> HTTPRouteNode \<Rightarrow> policyMap \<Rightarrow> policyMap \<Rightarrow> gatewayID list \<Rightarrow>
   (gatewayID \<rightharpoonup> policyMap) \<Rightarrow> failure + (gatewayID \<rightharpoonup> policyMap)" where
  "gatewaysOfHTTPRouteLoop cap rm httpRouteNode httpRouteNamespacePoliciesByKind
     httpRoutePoliciesByKind [] result = Inr result"
| "gatewaysOfHTTPRouteLoop cap rm httpRouteNode httpRouteNamespacePoliciesByKind
     httpRoutePoliciesByKind (gatewayID # rest) result =
     (if gatewayID \<notin> hrn_Gateways httpRouteNode then
        gatewaysOfHTTPRouteLoop cap rm httpRouteNode httpRouteNamespacePoliciesByKind
          httpRoutePoliciesByKind rest result
      else
        (case Gateways rm gatewayID of
           None \<Rightarrow> Inl Panic
         | Some gatewayNode \<Rightarrow>
        (let gatewayPoliciesByKind = gwn_EffectivePolicies gatewayNode in
         case MergePoliciesOfDifferentHierarchy cap gatewayPoliciesByKind httpRouteNamespacePoliciesByKind of
           Inl err \<Rightarrow> Inl (Err err)
         | Inr mergedPolicies \<Rightarrow>
        (case MergePoliciesOfDifferentHierarchy cap mergedPolicies httpRoutePoliciesByKind of
           Inl err \<Rightarrow> Inl (Err err)
         | Inr mergedPolicies \<Rightarrow>
             gatewaysOfHTTPRouteLoop cap rm httpRouteNode httpRouteNamespacePoliciesByKind
               httpRoutePoliciesByKind rest (result(gatewayID \<mapsto> mergedPolicies))))))"

text \<open>The body of the loop over the routes.\<close>

definition effectivePoliciesOfHTTPRoute ::
  "capability \<Rightarrow> iteration \<Rightarrow> ResourceModel \<Rightarrow> httpRouteID \<Rightarrow> HTTPRouteNode \<Rightarrow>
   failure + (gatewayID \<rightharpoonup> policyMap)" where
  "effectivePoliciesOfHTTPRoute cap it rm r httpRouteNode =
     (let httpRoutePolicies =
            convertPoliciesMapToSlice (rangePolicies it (OfHTTPRoute r)) (hrn_Policies httpRouteNode) in
      case deref (Namespaces rm) (hrn_Namespace httpRouteNode) of
        None \<Rightarrow> Inl Panic
      | Some namespaceNode \<Rightarrow>
     (let httpRouteNamespacePolicies =
            convertPoliciesMapToSlice (rangePolicies it (NamespaceOfHTTPRoute r)) (nsn_Policies namespaceNode) in
      case MergePoliciesOfSimilarKind cap httpRoutePolicies of
        Inl err \<Rightarrow> Inl (Err err)
      | Inr httpRoutePoliciesByKind \<Rightarrow>
     (case MergePoliciesOfSimilarKind cap httpRouteNamespacePolicies of
        Inl err \<Rightarrow> Inl (Err err)
      | Inr httpRouteNamespacePoliciesByKind \<Rightarrow>
          gatewaysOfHTTPRouteLoop cap rm httpRouteNode httpRouteNamespacePoliciesByKind
            httpRoutePoliciesByKind (rangeGatewaysOfHTTPRoute it r) Map.empty)))"

fun httpRoutesLoop ::
  "capability \<Rightarrow> iteration \<Rightarrow> httpRouteID list \<Rightarrow> ResourceModel \<Rightarrow> failure option \<times> ResourceModel" where
  "httpRoutesLoop cap it [] rm = (None, rm)"
| "httpRoutesLoop cap it (r # rs) rm =
     (case HTTPRoutes rm r of
        None \<Rightarrow> httpRoutesLoop cap it rs rm
      | Some httpRouteNode \<Rightarrow>
          (case effectivePoliciesOfHTTPRoute cap it rm r httpRouteNode of
             Inl f \<Rightarrow> (Some f, rm)
           | Inr result \<Rightarrow>
               httpRoutesLoop cap it rs
                 (rm\<lparr>HTTPRoutes := (HTTPRoutes rm)(r \<mapsto>
                       httpRouteNode\<lparr>hrn_EffectivePolicies := Some result\<rparr>)\<rparr>)))"

definition calculateEffectivePoliciesForHTTPRoutes ::
  "capability \<Rightarrow> iteration \<Rightarrow> ResourceModel \<Rightarrow> failure option \<times> ResourceModel" where
  "calculateEffectivePoliciesForHTTPRoutes cap it rm = httpRoutesLoop cap it (rangeHTTPRoutes it) rm"

text \<open>\<open>result[gatewayID]\<close> read from a map of maps: a missing key reads as the nil map.\<close>

definition index :: "(gatewayID \<rightharpoonup> policyMap) \<Rightarrow> gatewayID \<Rightarrow> policyMap" where
  "index result gatewayID = (case result gatewayID of None \<Rightarrow> None | Some m \<Rightarrow> m)"

text \<open>
  Step 3 of the pass over the backends, inner loop: the entries of one route's
  \<open>EffectivePolicies\<close> are folded into \<open>result\<close> with the same-hierarchy merge.
\<close>

fun effectivePoliciesOfHTTPRouteLoop ::
  "capability \<Rightarrow> (gatewayID \<rightharpoonup> policyMap) \<Rightarrow> gatewayID list \<Rightarrow>
   (gatewayID \<rightharpoonup> policyMap) \<Rightarrow> failure + (gatewayID \<rightharpoonup> policyMap)" where
  "effectivePoliciesOfHTTPRouteLoop cap httpRoutePoliciesByGateway [] result = Inr result"
| "effectivePoliciesOfHTTPRouteLoop cap httpRoutePoliciesByGateway (gatewayID # rest) result =
     (case httpRoutePoliciesByGateway gatewayID of
        None \<Rightarrow> effectivePoliciesOfHTTPRouteLoop cap httpRoutePoliciesByGateway rest result
      | Some policies \<Rightarrow>
          (case MergePoliciesOfSameHierarchy cap (index result gatewayID) policies of
             Inl err \<Rightarrow> Inl (Err err)
           | Inr merged \<Rightarrow>
               effectivePoliciesOfHTTPRouteLoop cap httpRoutePoliciesByGateway rest
                 (result(gatewayID \<mapsto> merged))))"

text \<open>Step 3, outer loop: the routes of one backend. Ranging over a nil map visits nothing.\<close>

fun httpRoutesOfBackendLoop ::
  "capability \<Rightarrow> iteration \<Rightarrow> ResourceModel \<Rightarrow> backendID \<Rightarrow> BackendNode \<Rightarrow> httpRouteID list \<Rightarrow>
   (gatewayID \<rightharpoonup> policyMap) \<Rightarrow> failure + (gatewayID \<rightharpoonup> policyMap)" where
  "httpRoutesOfBackendLoop cap it rm b backendNode [] result = Inr result"
| "httpRoutesOfBackendLoop cap it rm b backendNode (r # rest) result =
     (if r \<notin> bkn_HTTPRoutes backendNode then
        httpRoutesOfBackendLoop cap it rm b backendNode rest result
      else
        (case HTTPRoutes rm r of
           None \<Rightarrow> Inl Panic
         | Some httpRouteNode \<Rightarrow>
             (case hrn_EffectivePolicies httpRouteNode of
                None \<Rightarrow> httpRoutesOfBackendLoop cap it rm b backendNode rest result
              | Some httpRoutePoliciesByGateway \<Rightarrow>
                  (case effectivePoliciesOfHTTPRouteLoop cap httpRoutePoliciesByGateway
                          (rangeEffectivePoliciesOfHTTPRoute it b r) result of
                     Inl f \<Rightarrow> Inl f
                   | Inr result \<Rightarrow> httpRoutesOfBackendLoop cap it rm b backendNode rest result))))"

text \<open>
  Step 4: every gateway of \<open>result\<close> gets the backend-namespace policies and then
  the backend's own policies merged in.
\<close>

fun resultLoop ::
  "capability \<Rightarrow> policyMap \<Rightarrow> policyMap \<Rightarrow> gatewayID list \<Rightarrow>
   (gatewayID \<rightharpoonup> policyMap) \<Rightarrow> failure + (gatewayID \<rightharpoonup> policyMap)" where
  "resultLoop cap backendNamespacePoliciesByKind backendPoliciesByKind [] result = Inr result"
| "resultLoop cap backendNamespacePoliciesByKind backendPoliciesByKind (gatewayID # rest) result =
     (if result gatewayID = None then
        resultLoop cap backendNamespacePoliciesByKind backendPoliciesByKind rest result
      else
        (case MergePoliciesOfDifferentHierarchy cap (index result gatewayID) backendNamespacePoliciesByKind of
           Inl err \<Rightarrow> Inl (Err err)
         | Inr merged \<Rightarrow>
        (let result = result(gatewayID \<mapsto> merged) in
         case MergePoliciesOfDifferentHierarchy cap (index result gatewayID) backendPoliciesByKind of
           Inl err \<Rightarrow> Inl (Err err)
         | Inr merged \<Rightarrow>
             resultLoop cap backendNamespacePoliciesByKind backendPoliciesByKind rest
               (result(gatewayID \<mapsto> merged)))))"

text \<open>The body of the loop over the backends.\<close>

definition effectivePoliciesOfBackend ::
  "capability \<Rightarrow> iteration \<Rightarrow> ResourceModel \<Rightarrow> backendID \<Rightarrow> BackendNode \<Rightarrow>
   failure + (gatewayID \<rightharpoonup> policyMap)" where
  "effectivePoliciesOfBackend cap it rm b backendNode =
     (let backendPolicies =
            convertPoliciesMapToSlice (rangePolicies it (OfBackend b)) (bkn_Policies backendNode) in
      case deref (Namespaces rm) (bkn_Namespace backendNode) of
        None \<Rightarrow> Inl Panic
      | Some namespaceNode \<Rightarrow>
     (let backendNamespacePolicies =
            convertPoliciesMapToSlice (rangePolicies it (NamespaceOfBackend b)) (nsn_Policies namespaceNode) in
      case MergePoliciesOfSimilarKind cap backendPolicies of
        Inl err \<Rightarrow> Inl (Err err)
      | Inr backendPoliciesByKind \<Rightarrow>
     (case MergePoliciesOfSimilarKind cap backendNamespacePolicies of
        Inl err \<Rightarrow> Inl (Err err)
      | Inr backendNamespacePoliciesByKind \<Rightarrow>
     (case httpRoutesOfBackendLoop cap it rm b backendNode (rangeHTTPRoutesOfBackend it b) Map.empty of
        Inl f \<Rightarrow> Inl f
      | Inr result \<Rightarrow>
          resultLoop cap backendNamespacePoliciesByKind backendPoliciesByKind (rangeResult it b) result))))"

fun backendsLoop ::
  "capability \<Rightarrow> iteration \<Rightarrow> backendID list \<Rightarrow> ResourceModel \<Rightarrow> failure option \<times> ResourceModel" where
  "backendsLoop cap it [] rm = (None, rm)"
| "backendsLoop cap it (b # bs) rm =
     (case Backends rm b of
        None \<Rightarrow> backendsLoop cap it bs rm
      | Some backendNode \<Rightarrow>
          (case effectivePoliciesOfBackend cap it rm b backendNode of
             Inl f \<Rightarrow> (Some f, rm)
           | Inr result \<Rightarrow>
               backendsLoop cap it bs
                 (rm\<lparr>Backends := (Backends rm)(b \<mapsto>
                       backendNode\<lparr>bkn_EffectivePolicies := Some result\<rparr>)\<rparr>)))"

definition calculateEffectivePoliciesForBackends ::
  "capability \<Rightarrow> iteration \<Rightarrow> ResourceModel \<Rightarrow> failure option \<times> ResourceModel" where
  "calculateEffectivePoliciesForBackends cap it rm = backendsLoop cap it (rangeBackends it) rm"

definition calculateEffectivePolicies ::
  "capability \<Rightarrow> iteration \<Rightarrow> ResourceModel \<Rightarrow> failure option \<times> ResourceModel" where
  "calculateEffectivePolicies cap it rm =
     (case calculateEffectivePoliciesForGateways cap it rm of
        (Some err, rm1) \<Rightarrow> (Some err, rm1)
      | (None, rm1) \<Rightarrow>
     (case calculateEffectivePoliciesForHTTPRoutes cap it rm1 of
        (Some err, rm2) \<Rightarrow> (Some err, rm2)
      | (None, rm2) \<Rightarrow>
     (case calculateEffectivePoliciesForBackends cap it rm2 of
        (Some err, rm3) \<Rightarrow> (Some err, rm3)
      | (None, rm3) \<Rightarrow> (None, rm3))))"

subsection \<open>Inherited policies\<close>

definition filterInheritablePolicies :: "policies \<Rightarrow> policies" where
  "filterInheritablePolicies policies =
     (\<lambda>policyID. case policies policyID of
        None \<Rightarrow> None
      | Some policyNode \<Rightarrow> if p_IsInherited (pn_Policy policyNode) then Some policyNode else None)"

text \<open>
  \<open>maps.Copy(dst, src)\<close> stores every entry of \<open>src\<close> in \<open>dst\<close>: \<open>dst ++ src\<close>.
  Copying from a nil map stores nothing.
\<close>

definition inheritedPoliciesOfGateway :: "ResourceModel \<Rightarrow> GatewayNode \<Rightarrow> failure + policies" where
  "inheritedPoliciesOfGateway rm gatewayNode =
     (case deref (Namespaces rm) (gwn_Namespace gatewayNode) of
        None \<Rightarrow> Inl Panic
      | Some namespaceNode \<Rightarrow>
     (let result = Map.empty ++ filterInheritablePolicies (nsn_Policies namespaceNode) in
      case gwn_GatewayClass gatewayNode of
        None \<Rightarrow> Inr result
      | Some gwcID \<Rightarrow>
          (case GatewayClasses rm gwcID of
             None \<Rightarrow> Inl Panic
           | Some gatewayClassNode \<Rightarrow>
               Inr (result ++ filterInheritablePolicies (gwcn_Policies gatewayClassNode)))))"

fun inheritedGatewaysLoop ::
  "gatewayID list \<Rightarrow> ResourceModel \<Rightarrow> failure option \<times> ResourceModel" where
  "inheritedGatewaysLoop [] rm = (None, rm)"
| "inheritedGatewaysLoop (g # gs) rm =
     (case Gateways rm g of
        None \<Rightarrow> inheritedGatewaysLoop gs rm
      | Some gatewayNode \<Rightarrow>
          (case inheritedPoliciesOfGateway rm gatewayNode of
             Inl f \<Rightarrow> (Some f, rm)
           | Inr result \<Rightarrow>
               inheritedGatewaysLoop gs
                 (rm\<lparr>Gateways := (Gateways rm)(g \<mapsto>
                       gatewayNode\<lparr>gwn_InheritedPolicies := Some result\<rparr>)\<rparr>)))"

definition calculateInheritedPoliciesForGateways ::
  "iteration \<Rightarrow> ResourceModel \<Rightarrow> failure option \<times> ResourceModel" where
  "calculateInheritedPoliciesForGateways it rm = inheritedGatewaysLoop (rangeGateways it) rm"

definition nilAsEmpty :: "policies option \<Rightarrow> policies" where
  "nilAsEmpty m = (case m of None \<Rightarrow> Map.empty | Some policies \<Rightarrow> policies)"

fun inheritedFromGatewaysLoop ::
  "ResourceModel \<Rightarrow> HTTPRouteNode \<Rightarrow> gatewayID list \<Rightarrow> policies \<Rightarrow> failure + policies" where
  "inheritedFromGatewaysLoop rm httpRouteNode [] result = Inr result"
| "inheritedFromGatewaysLoop rm httpRouteNode (gatewayID # rest) result =
     (if gatewayID \<notin> hrn_Gateways httpRouteNode then
        inheritedFromGatewaysLoop rm httpRouteNode rest result
      else
        (case Gateways rm gatewayID of
           None \<Rightarrow> Inl Panic
         | Some gatewayNode \<Rightarrow>
             inheritedFromGatewaysLoop rm httpRouteNode rest
               ((result ++ nilAsEmpty (gwn_InheritedPolicies gatewayNode))
                  ++ filterInheritablePolicies (gwn_Policies gatewayNode))))"

definition inheritedPoliciesOfHTTPRoute ::
  "iteration \<Rightarrow> ResourceModel \<Rightarrow> httpRouteID \<Rightarrow> HTTPRouteNode \<Rightarrow> failure + policies" where
  "inheritedPoliciesOfHTTPRoute it rm r httpRouteNode =
     (case deref (Namespaces rm) (hrn_Namespace httpRouteNode) of
        None \<Rightarrow> Inl Panic
      | Some namespaceNode \<Rightarrow>
          inheritedFromGatewaysLoop rm httpRouteNode (rangeGatewaysOfHTTPRoute it r)
            (Map.empty ++ filterInheritablePolicies (nsn_Policies namespaceNode)))"

fun inheritedHTTPRoutesLoop ::
  "iteration \<Rightarrow> httpRouteID list \<Rightarrow> ResourceModel \<Rightarrow> failure option \<times> ResourceModel" where
  "inheritedHTTPRoutesLoop it [] rm = (None, rm)"
| "inheritedHTTPRoutesLoop it (r # rs) rm =
     (case HTTPRoutes rm r of
        None \<Rightarrow> inheritedHTTPRoutesLoop it rs rm
      | Some httpRouteNode \<Rightarrow>
          (case inheritedPoliciesOfHTTPRoute it rm r httpRouteNode of
             Inl f \<Rightarrow> (Some f, rm)
           | Inr result \<Rightarrow>
               inheritedHTTPRoutesLoop it rs
                 (rm\<lparr>HTTPRoutes := (HTTPRoutes rm)(r \<mapsto>
                       httpRouteNode\<lparr>hrn_InheritedPolicies := Some result\<rparr>)\<rparr>)))"

definition calculateInheritedPoliciesForHTTPRoutes ::
  "iteration \<Rightarrow> ResourceModel \<Rightarrow> failure option \<times> ResourceModel" where
  "calculateInheritedPoliciesForHTTPRoutes it rm = inheritedHTTPRoutesLoop it (rangeHTTPRoutes it) rm"

fun inheritedFromHTTPRoutesLoop ::
  "ResourceModel \<Rightarrow> BackendNode \<Rightarrow> httpRouteID list \<Rightarrow> policies \<Rightarrow> failure + policies" where
  "inheritedFromHTTPRoutesLoop rm backendNode [] result = Inr result"
| "inheritedFromHTTPRoutesLoop rm backendNode (r # rest) result =
     (if r \<notin> bkn_HTTPRoutes backendNode then
        inheritedFromHTTPRoutesLoop rm backendNode rest result
      else
        (case HTTPRoutes rm r of
           None \<Rightarrow> Inl Panic
         | Some httpRouteNode \<Rightarrow>
             inheritedFromHTTPRoutesLoop rm backendNode rest
               ((result ++ nilAsEmpty (hrn_InheritedPolicies httpRouteNode))
                  ++ filterInheritablePolicies (hrn_Policies httpRouteNode))))"

definition inheritedPoliciesOfBackend ::
  "iteration \<Rightarrow> ResourceModel \<Rightarrow> backendID \<Rightarrow> BackendNode \<Rightarrow> failure + policies" where
  "inheritedPoliciesOfBackend it rm b backendNode =
     (case deref (Namespaces rm) (bkn_Namespace backendNode) of
        None \<Rightarrow> Inl Panic
      | Some namespaceNode \<Rightarrow>
          inheritedFromHTTPRoutesLoop rm backendNode (rangeHTTPRoutesOfBackend it b)
            (Map.empty ++ filterInheritablePolicies (nsn_Policies namespaceNode)))"

fun inheritedBackendsLoop ::
  "iteration \<Rightarrow> backendID list \<Rightarrow> ResourceModel \<Rightarrow> failure option \<times> ResourceModel" where
  "inheritedBackendsLoop it [] rm = (None, rm)"
| "inheritedBackendsLoop it (b # bs) rm =
     (case Backends rm b of
        None \<Rightarrow> inheritedBackendsLoop it bs rm
      | Some backendNode \<Rightarrow>
          (case inheritedPoliciesOfBackend it rm b backendNode of
             Inl f \<Rightarrow> (Some f, rm)
           | Inr result \<Rightarrow>
               inheritedBackendsLoop it bs
                 (rm\<lparr>Backends := (Backends rm)(b \<mapsto>
                       backendNode\<lparr>bkn_InheritedPolicies := Some result\<rparr>)\<rparr>)))"

definition calculateInheritedPoliciesForBackends ::
  "iteration \<Rightarrow> ResourceModel \<Rightarrow> failure option \<times> ResourceModel" where
  "calculateInheritedPoliciesForBackends it rm = inheritedBackendsLoop it (rangeBackends it) rm"

definition calculateInheritedPolicies ::
  "iteration \<Rightarrow> ResourceModel \<Rightarrow> failure option \<times> ResourceModel" where
  "calculateInheritedPolicies it rm =
     (case calculateInheritedPoliciesForGateways it rm of
        (Some err, rm1) \<Rightarrow> (Some err, rm1)
      | (None, rm1) \<Rightarrow>
     (case calculateInheritedPoliciesForHTTPRoutes it rm1 of
        (Some err, rm2) \<Rightarrow> (Some err, rm2)
      | (None, rm2) \<Rightarrow>
     (case calculateInheritedPoliciesForBackends it rm2 of
        (Some err, rm3) \<Rightarrow> (Some err, rm3)
      | (None, rm3) \<Rightarrow> (None, rm3))))"

section \<open>Notions used to state the properties\<close>

subsection \<open>Insertion\<close>

text \<open>The common shape of the six insertion loops, over one map.\<close>

fun insertAbsent :: "('r \<Rightarrow> 'n) \<Rightarrow> ('n \<Rightarrow> 'k) \<Rightarrow> ('k \<rightharpoonup> 'n) \<Rightarrow> 'r list \<Rightarrow> ('k \<rightharpoonup> 'n)" where
  "insertAbsent new ident m [] = m"
| "insertAbsent new ident m (x # xs) =
     insertAbsent new ident
       (case m (ident (new x)) of None \<Rightarrow> m(ident (new x) \<mapsto> new x) | Some _ \<Rightarrow> m) xs"

subsection \<open>Edges of the graph\<close>

text \<open>Whether the model holds a node of the given identity.\<close>

fun present :: "ResourceModel \<Rightarrow> nodeID \<Rightarrow> bool" where
  "present rm (GatewayClassRef c) = (GatewayClasses rm c \<noteq> None)"
| "present rm (NamespaceRef n) = (Namespaces rm n \<noteq> None)"
| "present rm (GatewayRef g) = (Gateways rm g \<noteq> None)"
| "present rm (HTTPRouteRef r) = (HTTPRoutes rm r \<noteq> None)"
| "present rm (BackendRef b) = (Backends rm b \<noteq> None)"
| "present rm (ReferenceGrantRef t) = (ReferenceGrants rm t \<noteq> None)"

text \<open>The two endpoints of a connect call, in the order the operation looks them up.\<close>

fun endpoints :: "connectOp \<Rightarrow> nodeID \<times> nodeID" where
  "endpoints (GatewayWithGatewayClass g c) = (GatewayRef g, GatewayClassRef c)"
| "endpoints (HTTPRouteWithGateway r g) = (HTTPRouteRef r, GatewayRef g)"
| "endpoints (HTTPRouteWithBackend r b) = (HTTPRouteRef r, BackendRef b)"
| "endpoints (GatewayWithNamespace g n) = (GatewayRef g, NamespaceRef n)"
| "endpoints (HTTPRouteWithNamespace r n) = (HTTPRouteRef r, NamespaceRef n)"
| "endpoints (BackendWithNamespace b n) = (BackendRef b, NamespaceRef n)"
| "endpoints (ReferenceGrantWithBackend t b) = (ReferenceGrantRef t, BackendRef b)"

text \<open>The first endpoint holds the edge to the second.\<close>

fun refersTo :: "ResourceModel \<Rightarrow> connectOp \<Rightarrow> bool" where
  "refersTo rm (GatewayWithGatewayClass g c) =
     (case Gateways rm g of None \<Rightarrow> False | Some gn \<Rightarrow> gwn_GatewayClass gn = Some c)"
| "refersTo rm (HTTPRouteWithGateway r g) =
     (case HTTPRoutes rm r of None \<Rightarrow> False | Some rn \<Rightarrow> g \<in> hrn_Gateways rn)"
| "refersTo rm (HTTPRouteWithBackend r b) =
     (case HTTPRoutes rm r of None \<Rightarrow> False | Some rn \<Rightarrow> b \<in> hrn_Backends rn)"
| "refersTo rm (GatewayWithNamespace g n) =
     (case Gateways rm g of None \<Rightarrow> False | Some gn \<Rightarrow> gwn_Namespace gn = Some n)"
| "refersTo rm (HTTPRouteWithNamespace r n) =
     (case HTTPRoutes rm r of None \<Rightarrow> False | Some rn \<Rightarrow> hrn_Namespace rn = Some n)"
| "refersTo rm (BackendWithNamespace b n) =
     (case Backends rm b of None \<Rightarrow> False | Some bn \<Rightarrow> bkn_Namespace bn = Some n)"
| "refersTo rm (ReferenceGrantWithBackend t b) =
     (case ReferenceGrants rm t of None \<Rightarrow> False | Some tn \<Rightarrow> b \<in> rgn_Backends tn)"

text \<open>The second endpoint lists the first in its reverse index.\<close>

fun indexedBy :: "ResourceModel \<Rightarrow> connectOp \<Rightarrow> bool" where
  "indexedBy rm (GatewayWithGatewayClass g c) =
     (case GatewayClasses rm c of None \<Rightarrow> False | Some cn \<Rightarrow> g \<in> gwcn_Gateways cn)"
| "indexedBy rm (HTTPRouteWithGateway r g) =
     (case Gateways rm g of None \<Rightarrow> False | Some gn \<Rightarrow> r \<in> gwn_HTTPRoutes gn)"
| "indexedBy rm (HTTPRouteWithBackend r b) =
     (case Backends rm b of None \<Rightarrow> False | Some bn \<Rightarrow> r \<in> bkn_HTTPRoutes bn)"
| "indexedBy rm (GatewayWithNamespace g n) =
     (case Namespaces rm n of None \<Rightarrow> False | Some nn \<Rightarrow> g \<in> nsn_Gateways nn)"
| "indexedBy rm (HTTPRouteWithNamespace r n) =
     (case Namespaces rm n of None \<Rightarrow> False | Some nn \<Rightarrow> r \<in> nsn_HTTPRoutes nn)"
| "indexedBy rm (BackendWithNamespace b n) =
     (case Namespaces rm n of None \<Rightarrow> False | Some nn \<Rightarrow> b \<in> nsn_Backends nn)"
| "indexedBy rm (ReferenceGrantWithBackend t b) =
     (case Backends rm b of None \<Rightarrow> False | Some bn \<Rightarrow> t \<in> bkn_ReferenceGrants bn)"

text \<open>
  An edge is many-valued when the first endpoint keeps a map of such references
  (a route's gateways and backends, a grant's backends) and single-valued when it
  keeps one reference (a gateway's class, a node's namespace).
\<close>

fun manyValued :: "connectOp \<Rightarrow> bool" where
  "manyValued (HTTPRouteWithGateway r g) = True"
| "manyValued (HTTPRouteWithBackend r b) = True"
| "manyValued (ReferenceGrantWithBackend t b) = True"
| "manyValued _ = False"

text \<open>
  Every reference a node stores is matched by the reverse index of the node it
  points to.
\<close>

definition mirrored :: "ResourceModel \<Rightarrow> bool" where
  "mirrored rm \<longleftrightarrow> (\<forall>e. refersTo rm e \<longrightarrow> indexedBy rm e)"

text \<open>Every entry of a reverse index is matched by the reference of the node it lists.\<close>

definition backed :: "ResourceModel \<Rightarrow> bool" where
  "backed rm \<longleftrightarrow> (\<forall>e. indexedBy rm e \<longrightarrow> refersTo rm e)"

definition backedManyValued :: "ResourceModel \<Rightarrow> bool" where
  "backedManyValued rm \<longleftrightarrow> (\<forall>e. manyValued e \<longrightarrow> indexedBy rm e \<longrightarrow> refersTo rm e)"

definition bidirectional :: "ResourceModel \<Rightarrow> bool" where
  "bidirectional rm \<longleftrightarrow> mirrored rm \<and> backed rm"

subsection \<open>Policy targets\<close>

text \<open>
  The identity \<open>addPolicyIfTargetExists\<close> computes from a policy's \<open>TargetRef\<close> and
  looks up; \<open>None\<close> when it looks nothing up.
\<close>

definition lookedUp :: "Policy \<Rightarrow> nodeID option" where
  "lookedUp policy =
     (let t = p_TargetRef policy in
      if ref_Group t = gatewayv1_GroupName then
        (if ref_Kind t = ''GatewayClass'' then Some (GatewayClassRef (GatewayClassID (ref_Name t)))
         else if ref_Kind t = ''Gateway'' then
           Some (GatewayRef (GatewayID (ref_Namespace t) (ref_Name t)))
         else if ref_Kind t = ''HTTPRoute'' then
           Some (HTTPRouteRef (HTTPRouteID (ref_Namespace t) (ref_Name t)))
         else None)
      else if ref_Group t = corev1_GroupName \<and> ref_Kind t = ''Namespace'' then
        Some (NamespaceRef (NamespaceID (ref_Name t)))
      else Some (BackendRef (BackendID (ref_Group t) (ref_Kind t) (ref_Namespace t) (ref_Name t))))"

text \<open>The local policy map of a node; a reference grant has none.\<close>

fun policiesAt :: "ResourceModel \<Rightarrow> nodeID \<Rightarrow> policies" where
  "policiesAt rm (GatewayClassRef c) =
     (case GatewayClasses rm c of None \<Rightarrow> Map.empty | Some cn \<Rightarrow> gwcn_Policies cn)"
| "policiesAt rm (NamespaceRef n) =
     (case Namespaces rm n of None \<Rightarrow> Map.empty | Some nn \<Rightarrow> nsn_Policies nn)"
| "policiesAt rm (GatewayRef g) =
     (case Gateways rm g of None \<Rightarrow> Map.empty | Some gn \<Rightarrow> gwn_Policies gn)"
| "policiesAt rm (HTTPRouteRef r) =
     (case HTTPRoutes rm r of None \<Rightarrow> Map.empty | Some rn \<Rightarrow> hrn_Policies rn)"
| "policiesAt rm (BackendRef b) =
     (case Backends rm b of None \<Rightarrow> Map.empty | Some bn \<Rightarrow> bkn_Policies bn)"
| "policiesAt rm (ReferenceGrantRef t) = Map.empty"

text \<open>The back-references of a policy node that are set.\<close>

definition backReferences :: "PolicyNode \<Rightarrow> nodeID list" where
  "backReferences pn =
     (case pn_GatewayClass pn of None \<Rightarrow> [] | Some c \<Rightarrow> [GatewayClassRef c]) @
     (case pn_Namespace pn of None \<Rightarrow> [] | Some n \<Rightarrow> [NamespaceRef n]) @
     (case pn_Gateway pn of None \<Rightarrow> [] | Some g \<Rightarrow> [GatewayRef g]) @
     (case pn_HTTPRoute pn of None \<Rightarrow> [] | Some r \<Rightarrow> [HTTPRouteRef r]) @
     (case pn_Backend pn of None \<Rightarrow> [] | Some b \<Rightarrow> [BackendRef b])"

subsection \<open>Orders on policies\<close>



subsection \<open>Peers of a backend\<close>




subsection \<open>Resolved references\<close>

text \<open>
  What the passes read through the references of a node they visit. In the Go
  program a reference is a pointer: it is nil or it points to a node, so only the
  nil case can fail there. The namespace of the node is read without a nil check,
  so it must be set; the class of a gateway may be nil; the gateways of a route
  and the routes of a backend are entries of a map and are never nil.
\<close>

definition gatewayResolved :: "ResourceModel \<Rightarrow> gatewayID \<Rightarrow> bool" where
  "gatewayResolved rm g =
     (case Gateways rm g of
        None \<Rightarrow> True
      | Some gn \<Rightarrow>
          deref (Namespaces rm) (gwn_Namespace gn) \<noteq> None \<and>
          (case gwn_GatewayClass gn of None \<Rightarrow> True | Some c \<Rightarrow> GatewayClasses rm c \<noteq> None))"

definition httpRouteResolved :: "iteration \<Rightarrow> ResourceModel \<Rightarrow> httpRouteID \<Rightarrow> bool" where
  "httpRouteResolved it rm r =
     (case HTTPRoutes rm r of
        None \<Rightarrow> True
      | Some rn \<Rightarrow>
          deref (Namespaces rm) (hrn_Namespace rn) \<noteq> None \<and>
          (\<forall>g \<in> set (rangeGatewaysOfHTTPRoute it r). g \<in> hrn_Gateways rn \<longrightarrow> Gateways rm g \<noteq> None))"

definition backendResolved :: "iteration \<Rightarrow> ResourceModel \<Rightarrow> backendID \<Rightarrow> bool" where
  "backendResolved it rm b =
     (case Backends rm b of
        None \<Rightarrow> True
      | Some bn \<Rightarrow>
          deref (Namespaces rm) (bkn_Namespace bn) \<noteq> None \<and>
          (\<forall>r \<in> set (rangeHTTPRoutesOfBackend it b). r \<in> bkn_HTTPRoutes bn \<longrightarrow> HTTPRoutes rm r \<noteq> None))"

definition referencesResolved :: "iteration \<Rightarrow> ResourceModel \<Rightarrow> bool" where
  "referencesResolved it rm \<longleftrightarrow>
     (\<forall>g \<in> set (rangeGateways it). gatewayResolved rm g) \<and>
     (\<forall>r \<in> set (rangeHTTPRoutes it). httpRouteResolved it rm r) \<and>
     (\<forall>b \<in> set (rangeBackends it). backendResolved it rm b)"

text \<open>
  The part of the model that the resolution passes leave alone: the classes, the
  namespaces, and the references of every gateway, route and backend.
\<close>

definition skeleton ::
  "ResourceModel \<Rightarrow>
   (gatewayClassID \<rightharpoonup> GatewayClassNode) \<times> (namespaceID \<rightharpoonup> NamespaceNode) \<times>
   (gatewayID \<rightharpoonup> namespaceID option \<times> gatewayClassID option) \<times>
   (httpRouteID \<rightharpoonup> namespaceID option \<times> gatewayID set) \<times>
   (backendID \<rightharpoonup> namespaceID option \<times> httpRouteID set)" where
  "skeleton rm =
     (GatewayClasses rm, Namespaces rm,
      map_option (\<lambda>gn. (gwn_Namespace gn, gwn_GatewayClass gn)) \<circ> Gateways rm,
      map_option (\<lambda>rn. (hrn_Namespace rn, hrn_Gateways rn)) \<circ> HTTPRoutes rm,
      map_option (\<lambda>bn. (bkn_Namespace bn, bkn_HTTPRoutes bn)) \<circ> Backends rm)"

section \<open>A small cluster\<close>

text \<open>
  Two classes, one namespace, two gateways, two routes and one backend, used to
  run the operations on concrete inputs.
\<close>

definition classA :: GatewayClass where
  "classA = \<lparr>gwc_name = ''class-a'', gwc_body = ''istio''\<rparr>"

definition classB :: GatewayClass where
  "classB = \<lparr>gwc_name = ''class-b'', gwc_body = ''envoy''\<rparr>"

definition nsDefault :: Namespace where
  "nsDefault = \<lparr>ns_name = ''default'', ns_body = []\<rparr>"

definition gatewayOne :: Gateway where
  "gatewayOne = \<lparr>gw_namespace = ''default'', gw_name = ''gw-1'', gw_body = []\<rparr>"

definition gatewayTwo :: Gateway where
  "gatewayTwo = \<lparr>gw_namespace = ''default'', gw_name = ''gw-2'', gw_body = []\<rparr>"

definition routeOne :: HTTPRoute where
  "routeOne = \<lparr>hr_namespace = ''default'', hr_name = ''rt-1'', hr_body = []\<rparr>"

definition routeTwo :: HTTPRoute where
  "routeTwo = \<lparr>hr_namespace = ''default'', hr_name = ''rt-2'', hr_body = []\<rparr>"

definition backendOne :: Unstructured where
  "backendOne = \<lparr>u_group = [], u_kind = ''Service'', u_namespace = ''default'',
                  u_name = ''svc-1'', u_body = []\<rparr>"

definition grantOne :: ReferenceGrant where
  "grantOne = \<lparr>rg_namespace = ''default'', rg_name = ''grant-1'', rg_body = []\<rparr>"

definition idClassA :: gatewayClassID where "idClassA = GatewayClassID ''class-a''"
definition idClassB :: gatewayClassID where "idClassB = GatewayClassID ''class-b''"
definition idDefault :: namespaceID where "idDefault = NamespaceID ''default''"
definition idGatewayOne :: gatewayID where "idGatewayOne = GatewayID ''default'' ''gw-1''"
definition idGatewayTwo :: gatewayID where "idGatewayTwo = GatewayID ''default'' ''gw-2''"
definition idRouteOne :: httpRouteID where "idRouteOne = HTTPRouteID ''default'' ''rt-1''"
definition idRouteTwo :: httpRouteID where "idRouteTwo = HTTPRouteID ''default'' ''rt-2''"
definition idBackendOne :: backendID where
  "idBackendOne = BackendID [] ''Service'' ''default'' ''svc-1''"
definition idGrantOne :: referenceGrantID where
  "idGrantOne = ReferenceGrantID ''default'' ''grant-1''"

text \<open>All nodes inserted, nothing connected.\<close>

definition nodesOnly :: ResourceModel where
  "nodesOnly =
     addReferenceGrants
       (addBackends
          (addHTTPRoutes
             (addGateways
                (addNamespace (addGatewayClasses emptyModel [classA, classB]) [nsDefault])
                [gatewayOne, gatewayTwo])
             [routeOne, routeTwo])
          [backendOne])
       [grantOne]"

text \<open>
  A policy object of kind \<open>kind.group\<close> named \<open>namespace/name\<close>, with the given
  target.
\<close>

definition examplePolicy ::
  "string \<Rightarrow> string \<Rightarrow> string \<Rightarrow> string \<Rightarrow> bool \<Rightarrow> ObjRef \<Rightarrow> Policy" where
  "examplePolicy grp knd nmspace nm inherited target =
     \<lparr>p_TargetRef = target, p_Name = nm, p_IsInherited = inherited,
      p_PolicyCrdID = knd @ ''.'' @ grp,
      p_Unstructured = \<lparr>u_group = grp, u_kind = knd, u_namespace = nmspace, u_name = nm,
                        u_body = []\<rparr>\<rparr>"

definition targetGatewayOne :: ObjRef where
  "targetGatewayOne = \<lparr>ref_Group = ''gateway.networking.k8s.io'', ref_Kind = ''Gateway'',
                        ref_Namespace = ''default'', ref_Name = ''gw-1''\<rparr>"

definition targetGRPCRoute :: ObjRef where
  "targetGRPCRoute = \<lparr>ref_Group = ''gateway.networking.k8s.io'', ref_Kind = ''GRPCRoute'',
                       ref_Namespace = ''default'', ref_Name = ''grpc-1''\<rparr>"

definition timeoutOnGatewayOne :: Policy where
  "timeoutOnGatewayOne =
     examplePolicy ''example.com'' ''TimeoutPolicy'' ''default'' ''timeout-gw'' True targetGatewayOne"

definition timeoutOnGRPCRoute :: Policy where
  "timeoutOnGRPCRoute =
     examplePolicy ''example.com'' ''TimeoutPolicy'' ''default'' ''timeout-grpc'' True targetGRPCRoute"




text \<open>
  A merge capability to run the passes with. Policies of one kind at one level
  conflict; a more specific level overrides an ancestor level kind by kind; of
  two peers the one merged first wins.
\<close>

fun mergeSimilar :: "(PolicyCrdID \<rightharpoonup> Policy) \<Rightarrow> Policy list \<Rightarrow> string + policyMap" where
  "mergeSimilar acc [] = Inr (Some acc)"
| "mergeSimilar acc (p # ps) =
     (case acc (p_PolicyCrdID p) of
        None \<Rightarrow> mergeSimilar (acc(p_PolicyCrdID p \<mapsto> p)) ps
      | Some _ \<Rightarrow> Inl ''conflict'')"

definition orEmpty :: "policyMap \<Rightarrow> (PolicyCrdID \<rightharpoonup> Policy)" where
  "orEmpty m = (case m of None \<Rightarrow> Map.empty | Some policies \<Rightarrow> policies)"

definition exampleCapability :: capability where
  "exampleCapability =
     \<lparr>MergePoliciesOfSimilarKind = mergeSimilar Map.empty,
      MergePoliciesOfDifferentHierarchy = (\<lambda>a b. Inr (Some (orEmpty a ++ orEmpty b))),
      MergePoliciesOfSameHierarchy = (\<lambda>a b. Inr (Some (orEmpty b ++ orEmpty a)))\<rparr>"

text \<open>
  The cluster wired up. Gateway one has class A; gateway two has no class. Both
  routes reach the backend, route one through both gateways and route two
  through gateway one.
\<close>

definition wiring :: "connectOp list" where
  "wiring =
     [GatewayWithGatewayClass idGatewayOne idClassA,
      GatewayWithNamespace idGatewayOne idDefault,
      GatewayWithNamespace idGatewayTwo idDefault,
      HTTPRouteWithNamespace idRouteOne idDefault,
      HTTPRouteWithNamespace idRouteTwo idDefault,
      HTTPRouteWithGateway idRouteOne idGatewayOne,
      HTTPRouteWithGateway idRouteOne idGatewayTwo,
      HTTPRouteWithGateway idRouteTwo idGatewayOne,
      BackendWithNamespace idBackendOne idDefault,
      HTTPRouteWithBackend idRouteOne idBackendOne,
      HTTPRouteWithBackend idRouteTwo idBackendOne]"

definition targetClassA :: ObjRef where
  "targetClassA = \<lparr>ref_Group = ''gateway.networking.k8s.io'', ref_Kind = ''GatewayClass'',
                    ref_Namespace = [], ref_Name = ''class-a''\<rparr>"

definition targetDefault :: ObjRef where
  "targetDefault = \<lparr>ref_Group = [], ref_Kind = ''Namespace'', ref_Namespace = [],
                     ref_Name = ''default''\<rparr>"

definition targetRouteOne :: ObjRef where
  "targetRouteOne = \<lparr>ref_Group = ''gateway.networking.k8s.io'', ref_Kind = ''HTTPRoute'',
                      ref_Namespace = ''default'', ref_Name = ''rt-1''\<rparr>"

definition targetRouteTwo :: ObjRef where
  "targetRouteTwo = \<lparr>ref_Group = ''gateway.networking.k8s.io'', ref_Kind = ''HTTPRoute'',
                      ref_Namespace = ''default'', ref_Name = ''rt-2''\<rparr>"

definition targetBackendOne :: ObjRef where
  "targetBackendOne = \<lparr>ref_Group = [], ref_Kind = ''Service'', ref_Namespace = ''default'',
                        ref_Name = ''svc-1''\<rparr>"

definition timeoutOnClassA :: Policy where
  "timeoutOnClassA =
     examplePolicy ''example.com'' ''TimeoutPolicy'' ''default'' ''timeout-class'' True targetClassA"

definition retryOnDefault :: Policy where
  "retryOnDefault =
     examplePolicy ''example.com'' ''RetryPolicy'' ''default'' ''retry-ns'' True targetDefault"

definition headerOnRouteOne :: Policy where
  "headerOnRouteOne =
     examplePolicy ''example.com'' ''HeaderPolicy'' ''default'' ''header-rt-1'' False targetRouteOne"

definition headerOnRouteTwo :: Policy where
  "headerOnRouteTwo =
     examplePolicy ''example.com'' ''HeaderPolicy'' ''default'' ''header-rt-2'' False targetRouteTwo"

definition healthOnBackendOne :: Policy where
  "healthOnBackendOne =
     examplePolicy ''example.com'' ''HealthPolicy'' ''default'' ''health-svc'' False targetBackendOne"

definition cluster :: ResourceModel where
  "cluster =
     snd (addPolicyIfTargetExists 0 (connectAll 0 nodesOnly wiring)
            [timeoutOnClassA, retryOnDefault, timeoutOnGatewayOne, headerOnRouteOne,
             headerOnRouteTwo, healthOnBackendOne])"

text \<open>One order of visit for every loop of a run.\<close>

definition policyKey :: "Policy \<Rightarrow> policyID" where
  "policyKey p = pn_ID (NewPolicyNode p)"

definition allPolicyKeys :: "policyID list" where
  "allPolicyKeys = map policyKey
     [timeoutOnClassA, retryOnDefault, timeoutOnGatewayOne, headerOnRouteOne, headerOnRouteTwo,
      healthOnBackendOne]"

definition exampleIteration :: iteration where
  "exampleIteration =
     \<lparr>rangeGateways = [idGatewayOne, idGatewayTwo],
      rangeHTTPRoutes = [idRouteOne, idRouteTwo],
      rangeBackends = [idBackendOne],
      rangePolicies = (\<lambda>s. allPolicyKeys),
      rangeGatewaysOfHTTPRoute = (\<lambda>r. [idGatewayOne, idGatewayTwo]),
      rangeHTTPRoutesOfBackend = (\<lambda>b. [idRouteOne, idRouteTwo]),
      rangeEffectivePoliciesOfHTTPRoute = (\<lambda>b r. [idGatewayOne, idGatewayTwo]),
      rangeResult = (\<lambda>b. [idGatewayOne, idGatewayTwo])\<rparr>"




text \<open>
  Clusters with two policies of one kind on one node, which the example
  capability cannot merge: on gateway one (gateway two now has class B), on
  route one, on the backend.
\<close>

definition secondTimeoutOnGatewayOne :: Policy where
  "secondTimeoutOnGatewayOne =
     examplePolicy ''example.com'' ''TimeoutPolicy'' ''default'' ''timeout-gw-b'' True targetGatewayOne"

definition secondHeaderOnRouteOne :: Policy where
  "secondHeaderOnRouteOne =
     examplePolicy ''example.com'' ''HeaderPolicy'' ''default'' ''header-rt-1-b'' False targetRouteOne"

definition secondHealthOnBackendOne :: Policy where
  "secondHealthOnBackendOne =
     examplePolicy ''example.com'' ''HealthPolicy'' ''default'' ''health-svc-b'' False targetBackendOne"

definition conflictAtGateway :: ResourceModel where
  "conflictAtGateway =
     snd (addPolicyIfTargetExists 0
            (snd (connectGatewayWithGatewayClass 0 cluster idGatewayTwo idClassB))
            [secondTimeoutOnGatewayOne])"

definition conflictAtHTTPRoute :: ResourceModel where
  "conflictAtHTTPRoute = snd (addPolicyIfTargetExists 0 cluster [secondHeaderOnRouteOne])"

definition conflictAtBackend :: ResourceModel where
  "conflictAtBackend = snd (addPolicyIfTargetExists 0 cluster [secondHealthOnBackendOne])"

definition conflictIteration :: iteration where
  "conflictIteration =
     exampleIteration\<lparr>rangePolicies := (\<lambda>s. allPolicyKeys @
        map policyKey [secondTimeoutOnGatewayOne, secondHeaderOnRouteOne, secondHealthOnBackendOne])\<rparr>"


text \<open>Gateway one with its class and no namespace.\<close>

definition noNamespace :: ResourceModel where
  "noNamespace = connectAll 0 nodesOnly [GatewayWithGatewayClass idGatewayOne idClassA]"

section \<open>Properties\<close>

subsection \<open>Insertion is idempotent\<close>

lemma insertAbsent_append:
  "insertAbsent new ident m (xs @ ys) = insertAbsent new ident (insertAbsent new ident m xs) ys"
  by (induction xs arbitrary: m) simp_all

lemma insertAbsent_keeps:
  "m k = Some n \<Longrightarrow> insertAbsent new ident m xs k = Some n"
proof (induction xs arbitrary: m)
  case Nil
  then show ?case by simp
next
  case (Cons x xs)
  show ?case
  proof (cases "m (ident (new x))")
    case None
    with Cons.prems have "k \<noteq> ident (new x)" by auto
    with Cons.prems have "(m(ident (new x) \<mapsto> new x)) k = Some n" by simp
    then show ?thesis using None Cons.IH by simp
  next
    case (Some a)
    then show ?thesis using Cons by simp
  qed
qed

lemma insertAbsent_member:
  "x \<in> set xs \<Longrightarrow> insertAbsent new ident m xs (ident (new x)) \<noteq> None"
proof (induction xs arbitrary: m)
  case Nil
  then show ?case by simp
next
  case (Cons y ys)
  show ?case
  proof (cases "x = y")
    case True
    then show ?thesis
      by (cases "m (ident (new y))") (simp_all add: insertAbsent_keeps)
  next
    case False
    with Cons show ?thesis by simp
  qed
qed

lemma insertAbsent_present:
  "m (ident (new x)) \<noteq> None \<Longrightarrow> insertAbsent new ident m (x # xs) = insertAbsent new ident m xs"
  by (auto split: option.splits)

lemma insertAbsent_again:
  assumes "x \<in> set xs"
  shows "insertAbsent new ident (insertAbsent new ident m xs) (ys @ x # zs)
       = insertAbsent new ident (insertAbsent new ident m xs) (ys @ zs)"
proof -
  let ?m = "insertAbsent new ident (insertAbsent new ident m xs) ys"
  have "insertAbsent new ident m xs (ident (new x)) \<noteq> None"
    using assms by (rule insertAbsent_member)
  then have "?m (ident (new x)) \<noteq> None"
    by (auto simp: insertAbsent_keeps)
  then have "insertAbsent new ident ?m (x # zs) = insertAbsent new ident ?m zs"
    by (rule insertAbsent_present)
  then show ?thesis by (simp add: insertAbsent_append)
qed

lemma insertAbsent_within:
  "insertAbsent new ident m (xs @ x # ys @ x # zs) = insertAbsent new ident m (xs @ x # ys @ zs)"
proof -
  have "insertAbsent new ident (insertAbsent new ident m (xs @ [x])) (ys @ x # zs)
      = insertAbsent new ident (insertAbsent new ident m (xs @ [x])) (ys @ zs)"
    by (rule insertAbsent_again) simp
  then show ?thesis
    using insertAbsent_append[of new ident m "xs @ [x]" "ys @ x # zs"]
          insertAbsent_append[of new ident m "xs @ [x]" "ys @ zs"]
    by simp
qed

lemma addGatewayClasses_eq:
  "addGatewayClasses rm xs = rm\<lparr>GatewayClasses := insertAbsent NewGatewayClassNode gwcn_ID (GatewayClasses rm) xs\<rparr>"
  by (induction xs arbitrary: rm) (simp_all add: Let_def split: option.splits)

lemma addGatewayClasses_again:
  "x \<in> set xs \<Longrightarrow> addGatewayClasses (addGatewayClasses rm xs) (ys @ x # zs) = addGatewayClasses (addGatewayClasses rm xs) (ys @ zs)"
  by (simp add: addGatewayClasses_eq insertAbsent_again del: insertAbsent.simps)

lemma addGatewayClasses_within:
  "addGatewayClasses rm (xs @ x # ys @ x # zs) = addGatewayClasses rm (xs @ x # ys @ zs)"
  by (simp add: addGatewayClasses_eq insertAbsent_within del: insertAbsent.simps)

lemma addGatewayClasses_present:
  "GatewayClasses rm (GatewayClassID (gwc_name c)) \<noteq> None \<Longrightarrow> addGatewayClasses rm [c] = rm"
  by (auto simp: gwcn_ID_def NewGatewayClassNode_def)

lemma addNamespace_eq:
  "addNamespace rm xs = rm\<lparr>Namespaces := insertAbsent NewNamespaceNode nsn_ID (Namespaces rm) xs\<rparr>"
  by (induction xs arbitrary: rm) (simp_all add: Let_def split: option.splits)

lemma addNamespace_again:
  "x \<in> set xs \<Longrightarrow> addNamespace (addNamespace rm xs) (ys @ x # zs) = addNamespace (addNamespace rm xs) (ys @ zs)"
  by (simp add: addNamespace_eq insertAbsent_again del: insertAbsent.simps)

lemma addNamespace_within:
  "addNamespace rm (xs @ x # ys @ x # zs) = addNamespace rm (xs @ x # ys @ zs)"
  by (simp add: addNamespace_eq insertAbsent_within del: insertAbsent.simps)

lemma addNamespace_present:
  "Namespaces rm (NamespaceID (ns_name n)) \<noteq> None \<Longrightarrow> addNamespace rm [n] = rm"
  by (auto simp: nsn_ID_def NewNamespaceNode_def)

lemma addGateways_eq:
  "addGateways rm xs = rm\<lparr>Gateways := insertAbsent NewGatewayNode gwn_ID (Gateways rm) xs\<rparr>"
  by (induction xs arbitrary: rm) (simp_all add: Let_def split: option.splits)

lemma addGateways_again:
  "x \<in> set xs \<Longrightarrow> addGateways (addGateways rm xs) (ys @ x # zs) = addGateways (addGateways rm xs) (ys @ zs)"
  by (simp add: addGateways_eq insertAbsent_again del: insertAbsent.simps)

lemma addGateways_within:
  "addGateways rm (xs @ x # ys @ x # zs) = addGateways rm (xs @ x # ys @ zs)"
  by (simp add: addGateways_eq insertAbsent_within del: insertAbsent.simps)

lemma addGateways_present:
  "Gateways rm (GatewayID (gw_namespace g) (gw_name g)) \<noteq> None \<Longrightarrow> addGateways rm [g] = rm"
  by (auto simp: gwn_ID_def NewGatewayNode_def)

lemma addHTTPRoutes_eq:
  "addHTTPRoutes rm xs = rm\<lparr>HTTPRoutes := insertAbsent NewHTTPRouteNode hrn_ID (HTTPRoutes rm) xs\<rparr>"
  by (induction xs arbitrary: rm) (simp_all add: Let_def split: option.splits)

lemma addHTTPRoutes_again:
  "x \<in> set xs \<Longrightarrow> addHTTPRoutes (addHTTPRoutes rm xs) (ys @ x # zs) = addHTTPRoutes (addHTTPRoutes rm xs) (ys @ zs)"
  by (simp add: addHTTPRoutes_eq insertAbsent_again del: insertAbsent.simps)

lemma addHTTPRoutes_within:
  "addHTTPRoutes rm (xs @ x # ys @ x # zs) = addHTTPRoutes rm (xs @ x # ys @ zs)"
  by (simp add: addHTTPRoutes_eq insertAbsent_within del: insertAbsent.simps)

lemma addHTTPRoutes_present:
  "HTTPRoutes rm (HTTPRouteID (hr_namespace r) (hr_name r)) \<noteq> None \<Longrightarrow> addHTTPRoutes rm [r] = rm"
  by (auto simp: hrn_ID_def NewHTTPRouteNode_def)

lemma addBackends_eq:
  "addBackends rm xs = rm\<lparr>Backends := insertAbsent NewBackendNode bkn_ID (Backends rm) xs\<rparr>"
  by (induction xs arbitrary: rm) (simp_all add: Let_def split: option.splits)

lemma addBackends_again:
  "x \<in> set xs \<Longrightarrow> addBackends (addBackends rm xs) (ys @ x # zs) = addBackends (addBackends rm xs) (ys @ zs)"
  by (simp add: addBackends_eq insertAbsent_again del: insertAbsent.simps)

lemma addBackends_within:
  "addBackends rm (xs @ x # ys @ x # zs) = addBackends rm (xs @ x # ys @ zs)"
  by (simp add: addBackends_eq insertAbsent_within del: insertAbsent.simps)

lemma addBackends_present:
  "Backends rm (BackendID (u_group b) (u_kind b) (u_namespace b) (u_name b)) \<noteq> None \<Longrightarrow> addBackends rm [b] = rm"
  by (auto simp: bkn_ID_def NewBackendNode_def)

lemma addReferenceGrants_eq:
  "addReferenceGrants rm xs = rm\<lparr>ReferenceGrants := insertAbsent NewReferenceGrantNode rgn_ID (ReferenceGrants rm) xs\<rparr>"
  by (induction xs arbitrary: rm) (simp_all add: Let_def split: option.splits)

lemma addReferenceGrants_again:
  "x \<in> set xs \<Longrightarrow> addReferenceGrants (addReferenceGrants rm xs) (ys @ x # zs) = addReferenceGrants (addReferenceGrants rm xs) (ys @ zs)"
  by (simp add: addReferenceGrants_eq insertAbsent_again del: insertAbsent.simps)

lemma addReferenceGrants_within:
  "addReferenceGrants rm (xs @ x # ys @ x # zs) = addReferenceGrants rm (xs @ x # ys @ zs)"
  by (simp add: addReferenceGrants_eq insertAbsent_within del: insertAbsent.simps)

lemma addReferenceGrants_present:
  "ReferenceGrants rm (ReferenceGrantID (rg_namespace t) (rg_name t)) \<noteq> None \<Longrightarrow> addReferenceGrants rm [t] = rm"
  by (auto simp: rgn_ID_def NewReferenceGrantNode_def)

lemma nodesOnly_maps:
  "GatewayClasses nodesOnly = [idClassA \<mapsto> NewGatewayClassNode classA, idClassB \<mapsto> NewGatewayClassNode classB]"
  "Namespaces nodesOnly = [idDefault \<mapsto> NewNamespaceNode nsDefault]"
  "Gateways nodesOnly = [idGatewayOne \<mapsto> NewGatewayNode gatewayOne, idGatewayTwo \<mapsto> NewGatewayNode gatewayTwo]"
  "HTTPRoutes nodesOnly = [idRouteOne \<mapsto> NewHTTPRouteNode routeOne, idRouteTwo \<mapsto> NewHTTPRouteNode routeTwo]"
  "Backends nodesOnly = [idBackendOne \<mapsto> NewBackendNode backendOne]"
  "ReferenceGrants nodesOnly = [idGrantOne \<mapsto> NewReferenceGrantNode grantOne]"
  "Policies nodesOnly = Map.empty"
  by (simp_all add: nodesOnly_def emptyModel_def Let_def gwcn_ID_def nsn_ID_def gwn_ID_def hrn_ID_def
      bkn_ID_def rgn_ID_def NewGatewayClassNode_def NewNamespaceNode_def NewGatewayNode_def
      NewHTTPRouteNode_def NewBackendNode_def NewReferenceGrantNode_def
      classA_def classB_def nsDefault_def gatewayOne_def gatewayTwo_def routeOne_def routeTwo_def
      backendOne_def grantOne_def idClassA_def idClassB_def idDefault_def idGatewayOne_def
      idGatewayTwo_def idRouteOne_def idRouteTwo_def idBackendOne_def idGrantOne_def)

lemma example_ids:
  "GatewayClassID (gwc_name classA) = idClassA"
  "NamespaceID (ns_name nsDefault) = idDefault"
  "GatewayID (gw_namespace gatewayOne) (gw_name gatewayOne) = idGatewayOne"
  "HTTPRouteID (hr_namespace routeOne) (hr_name routeOne) = idRouteOne"
  "BackendID (u_group backendOne) (u_kind backendOne) (u_namespace backendOne) (u_name backendOne)
     = idBackendOne"
  "ReferenceGrantID (rg_namespace grantOne) (rg_name grantOne) = idGrantOne"
  by (simp_all add: classA_def nsDefault_def gatewayOne_def routeOne_def backendOne_def grantOne_def
      idClassA_def idDefault_def idGatewayOne_def idRouteOne_def idBackendOne_def idGrantOne_def)

lemma insertAbsent_dom:
  "dom (insertAbsent new ident m xs) = dom m \<union> (\<lambda>x. ident (new x)) ` set xs"
  by (induction xs arbitrary: m) (auto split: option.splits)

lemma insertAbsent_fresh:
  "m (ident (new x)) = None \<Longrightarrow> insertAbsent new ident m (x # xs) (ident (new x)) = Some (new x)"
  by (simp add: insertAbsent_keeps)

lemma addGatewayClasses_dom:
  "dom (GatewayClasses (addGatewayClasses rm xs)) = dom (GatewayClasses rm) \<union> (\<lambda>x. GatewayClassID (gwc_name x)) ` set xs"
  by (simp add: addGatewayClasses_eq insertAbsent_dom gwcn_ID_def NewGatewayClassNode_def del: insertAbsent.simps)

lemma addGatewayClasses_fresh:
  "GatewayClasses rm (GatewayClassID (gwc_name x)) = None \<Longrightarrow>
   GatewayClasses (addGatewayClasses rm (x # xs)) (GatewayClassID (gwc_name x)) = Some (NewGatewayClassNode x)"
  using insertAbsent_fresh[of "GatewayClasses rm" gwcn_ID NewGatewayClassNode x xs]
  by (simp add: addGatewayClasses_eq gwcn_ID_def NewGatewayClassNode_def del: insertAbsent.simps)

lemma addNamespace_dom:
  "dom (Namespaces (addNamespace rm xs)) = dom (Namespaces rm) \<union> (\<lambda>x. NamespaceID (ns_name x)) ` set xs"
  by (simp add: addNamespace_eq insertAbsent_dom nsn_ID_def NewNamespaceNode_def del: insertAbsent.simps)

lemma addNamespace_fresh:
  "Namespaces rm (NamespaceID (ns_name x)) = None \<Longrightarrow>
   Namespaces (addNamespace rm (x # xs)) (NamespaceID (ns_name x)) = Some (NewNamespaceNode x)"
  using insertAbsent_fresh[of "Namespaces rm" nsn_ID NewNamespaceNode x xs]
  by (simp add: addNamespace_eq nsn_ID_def NewNamespaceNode_def del: insertAbsent.simps)

lemma addGateways_dom:
  "dom (Gateways (addGateways rm xs)) = dom (Gateways rm) \<union> (\<lambda>x. GatewayID (gw_namespace x) (gw_name x)) ` set xs"
  by (simp add: addGateways_eq insertAbsent_dom gwn_ID_def NewGatewayNode_def del: insertAbsent.simps)

lemma addGateways_fresh:
  "Gateways rm (GatewayID (gw_namespace x) (gw_name x)) = None \<Longrightarrow>
   Gateways (addGateways rm (x # xs)) (GatewayID (gw_namespace x) (gw_name x)) = Some (NewGatewayNode x)"
  using insertAbsent_fresh[of "Gateways rm" gwn_ID NewGatewayNode x xs]
  by (simp add: addGateways_eq gwn_ID_def NewGatewayNode_def del: insertAbsent.simps)

lemma addHTTPRoutes_dom:
  "dom (HTTPRoutes (addHTTPRoutes rm xs)) = dom (HTTPRoutes rm) \<union> (\<lambda>x. HTTPRouteID (hr_namespace x) (hr_name x)) ` set xs"
  by (simp add: addHTTPRoutes_eq insertAbsent_dom hrn_ID_def NewHTTPRouteNode_def del: insertAbsent.simps)

lemma addHTTPRoutes_fresh:
  "HTTPRoutes rm (HTTPRouteID (hr_namespace x) (hr_name x)) = None \<Longrightarrow>
   HTTPRoutes (addHTTPRoutes rm (x # xs)) (HTTPRouteID (hr_namespace x) (hr_name x)) = Some (NewHTTPRouteNode x)"
  using insertAbsent_fresh[of "HTTPRoutes rm" hrn_ID NewHTTPRouteNode x xs]
  by (simp add: addHTTPRoutes_eq hrn_ID_def NewHTTPRouteNode_def del: insertAbsent.simps)

lemma addBackends_dom:
  "dom (Backends (addBackends rm xs)) = dom (Backends rm) \<union> (\<lambda>x. BackendID (u_group x) (u_kind x) (u_namespace x) (u_name x)) ` set xs"
  by (simp add: addBackends_eq insertAbsent_dom bkn_ID_def NewBackendNode_def del: insertAbsent.simps)

lemma addBackends_fresh:
  "Backends rm (BackendID (u_group x) (u_kind x) (u_namespace x) (u_name x)) = None \<Longrightarrow>
   Backends (addBackends rm (x # xs)) (BackendID (u_group x) (u_kind x) (u_namespace x) (u_name x)) = Some (NewBackendNode x)"
  using insertAbsent_fresh[of "Backends rm" bkn_ID NewBackendNode x xs]
  by (simp add: addBackends_eq bkn_ID_def NewBackendNode_def del: insertAbsent.simps)

lemma addReferenceGrants_dom:
  "dom (ReferenceGrants (addReferenceGrants rm xs)) = dom (ReferenceGrants rm) \<union> (\<lambda>x. ReferenceGrantID (rg_namespace x) (rg_name x)) ` set xs"
  by (simp add: addReferenceGrants_eq insertAbsent_dom rgn_ID_def NewReferenceGrantNode_def del: insertAbsent.simps)

lemma addReferenceGrants_fresh:
  "ReferenceGrants rm (ReferenceGrantID (rg_namespace x) (rg_name x)) = None \<Longrightarrow>
   ReferenceGrants (addReferenceGrants rm (x # xs)) (ReferenceGrantID (rg_namespace x) (rg_name x)) = Some (NewReferenceGrantNode x)"
  using insertAbsent_fresh[of "ReferenceGrants rm" rgn_ID NewReferenceGrantNode x xs]
  by (simp add: addReferenceGrants_eq rgn_ID_def NewReferenceGrantNode_def del: insertAbsent.simps)

text \<open>
  Claim C8. For each of the six resource kinds: after a batch is inserted, the
  map of the kind has a node under the identity of every resource of the batch,
  and under no identity other than these and the ones it had; a resource whose
  identity the map did not have gets the node made from it. A resource that was
  inserted by an earlier batch can be dropped from a later batch without
  changing the model; a resource that occurs twice in one batch can be dropped
  at its second occurrence; and inserting a resource whose identity the model
  already holds leaves the model as it is. The model keeps one node for each
  identity, since the nodes of a kind are the values of a map on identities.
\<close>

theorem insertion_idempotent:
  "(c \<in> set cs \<longrightarrow>
      addGatewayClasses (addGatewayClasses rm cs) (csa @ c # csb) = addGatewayClasses (addGatewayClasses rm cs) (csa @ csb)) \<and>
   addGatewayClasses rm (cs @ c # csa @ c # csb) = addGatewayClasses rm (cs @ c # csa @ csb) \<and>
   (GatewayClasses rm (GatewayClassID (gwc_name c)) \<noteq> None \<longrightarrow> addGatewayClasses rm [c] = rm) \<and>
   dom (GatewayClasses (addGatewayClasses rm cs)) = dom (GatewayClasses rm) \<union> (\<lambda>c. GatewayClassID (gwc_name c)) ` set cs \<and>
   (GatewayClasses rm (GatewayClassID (gwc_name c)) = None \<longrightarrow>
      GatewayClasses (addGatewayClasses rm (c # csa)) (GatewayClassID (gwc_name c)) = Some (NewGatewayClassNode c)) \<and>
  (n \<in> set ns \<longrightarrow>
      addNamespace (addNamespace rm ns) (nsa @ n # nsb) = addNamespace (addNamespace rm ns) (nsa @ nsb)) \<and>
   addNamespace rm (ns @ n # nsa @ n # nsb) = addNamespace rm (ns @ n # nsa @ nsb) \<and>
   (Namespaces rm (NamespaceID (ns_name n)) \<noteq> None \<longrightarrow> addNamespace rm [n] = rm) \<and>
   dom (Namespaces (addNamespace rm ns)) = dom (Namespaces rm) \<union> (\<lambda>n. NamespaceID (ns_name n)) ` set ns \<and>
   (Namespaces rm (NamespaceID (ns_name n)) = None \<longrightarrow>
      Namespaces (addNamespace rm (n # nsa)) (NamespaceID (ns_name n)) = Some (NewNamespaceNode n)) \<and>
  (g \<in> set gs \<longrightarrow>
      addGateways (addGateways rm gs) (gsa @ g # gsb) = addGateways (addGateways rm gs) (gsa @ gsb)) \<and>
   addGateways rm (gs @ g # gsa @ g # gsb) = addGateways rm (gs @ g # gsa @ gsb) \<and>
   (Gateways rm (GatewayID (gw_namespace g) (gw_name g)) \<noteq> None \<longrightarrow> addGateways rm [g] = rm) \<and>
   dom (Gateways (addGateways rm gs)) = dom (Gateways rm) \<union> (\<lambda>g. GatewayID (gw_namespace g) (gw_name g)) ` set gs \<and>
   (Gateways rm (GatewayID (gw_namespace g) (gw_name g)) = None \<longrightarrow>
      Gateways (addGateways rm (g # gsa)) (GatewayID (gw_namespace g) (gw_name g)) = Some (NewGatewayNode g)) \<and>
  (r \<in> set rs \<longrightarrow>
      addHTTPRoutes (addHTTPRoutes rm rs) (rsa @ r # rsb) = addHTTPRoutes (addHTTPRoutes rm rs) (rsa @ rsb)) \<and>
   addHTTPRoutes rm (rs @ r # rsa @ r # rsb) = addHTTPRoutes rm (rs @ r # rsa @ rsb) \<and>
   (HTTPRoutes rm (HTTPRouteID (hr_namespace r) (hr_name r)) \<noteq> None \<longrightarrow> addHTTPRoutes rm [r] = rm) \<and>
   dom (HTTPRoutes (addHTTPRoutes rm rs)) = dom (HTTPRoutes rm) \<union> (\<lambda>r. HTTPRouteID (hr_namespace r) (hr_name r)) ` set rs \<and>
   (HTTPRoutes rm (HTTPRouteID (hr_namespace r) (hr_name r)) = None \<longrightarrow>
      HTTPRoutes (addHTTPRoutes rm (r # rsa)) (HTTPRouteID (hr_namespace r) (hr_name r)) = Some (NewHTTPRouteNode r)) \<and>
  (b \<in> set bs \<longrightarrow>
      addBackends (addBackends rm bs) (bsa @ b # bsb) = addBackends (addBackends rm bs) (bsa @ bsb)) \<and>
   addBackends rm (bs @ b # bsa @ b # bsb) = addBackends rm (bs @ b # bsa @ bsb) \<and>
   (Backends rm (BackendID (u_group b) (u_kind b) (u_namespace b) (u_name b)) \<noteq> None \<longrightarrow> addBackends rm [b] = rm) \<and>
   dom (Backends (addBackends rm bs)) = dom (Backends rm) \<union> (\<lambda>b. BackendID (u_group b) (u_kind b) (u_namespace b) (u_name b)) ` set bs \<and>
   (Backends rm (BackendID (u_group b) (u_kind b) (u_namespace b) (u_name b)) = None \<longrightarrow>
      Backends (addBackends rm (b # bsa)) (BackendID (u_group b) (u_kind b) (u_namespace b) (u_name b)) = Some (NewBackendNode b)) \<and>
  (t \<in> set ts \<longrightarrow>
      addReferenceGrants (addReferenceGrants rm ts) (tsa @ t # tsb) = addReferenceGrants (addReferenceGrants rm ts) (tsa @ tsb)) \<and>
   addReferenceGrants rm (ts @ t # tsa @ t # tsb) = addReferenceGrants rm (ts @ t # tsa @ tsb) \<and>
   (ReferenceGrants rm (ReferenceGrantID (rg_namespace t) (rg_name t)) \<noteq> None \<longrightarrow> addReferenceGrants rm [t] = rm) \<and>
   dom (ReferenceGrants (addReferenceGrants rm ts)) = dom (ReferenceGrants rm) \<union> (\<lambda>t. ReferenceGrantID (rg_namespace t) (rg_name t)) ` set ts \<and>
   (ReferenceGrants rm (ReferenceGrantID (rg_namespace t) (rg_name t)) = None \<longrightarrow>
      ReferenceGrants (addReferenceGrants rm (t # tsa)) (ReferenceGrantID (rg_namespace t) (rg_name t)) = Some (NewReferenceGrantNode t))"
  by (intro conjI impI addGatewayClasses_again addGatewayClasses_within addGatewayClasses_present addGatewayClasses_dom addGatewayClasses_fresh addNamespace_again addNamespace_within addNamespace_present addNamespace_dom addNamespace_fresh addGateways_again addGateways_within addGateways_present addGateways_dom addGateways_fresh addHTTPRoutes_again addHTTPRoutes_within addHTTPRoutes_present addHTTPRoutes_dom addHTTPRoutes_fresh addBackends_again addBackends_within addBackends_present addBackends_dom addBackends_fresh addReferenceGrants_again addReferenceGrants_within addReferenceGrants_present addReferenceGrants_dom addReferenceGrants_fresh)

theorem insertion_idempotent_witness:
  "classA \<in> set [classA] \<and> GatewayClasses nodesOnly (GatewayClassID (gwc_name classA)) \<noteq> None \<and>
   addGatewayClasses nodesOnly [classA] = nodesOnly \<and> addGatewayClasses (addGatewayClasses nodesOnly [classA]) [classA] = addGatewayClasses nodesOnly [classA] \<and>
   addGatewayClasses emptyModel [classA, classA] = addGatewayClasses emptyModel [classA] \<and>
   GatewayClasses emptyModel (GatewayClassID (gwc_name classA)) = None \<and>
   GatewayClasses (addGatewayClasses emptyModel [classA, classA]) (GatewayClassID (gwc_name classA)) = Some (NewGatewayClassNode classA) \<and>
   dom (GatewayClasses (addGatewayClasses emptyModel [classA, classA])) = {GatewayClassID (gwc_name classA)} \<and>
   nsDefault \<in> set [nsDefault] \<and> Namespaces nodesOnly (NamespaceID (ns_name nsDefault)) \<noteq> None \<and>
   addNamespace nodesOnly [nsDefault] = nodesOnly \<and> addNamespace (addNamespace nodesOnly [nsDefault]) [nsDefault] = addNamespace nodesOnly [nsDefault] \<and>
   addNamespace emptyModel [nsDefault, nsDefault] = addNamespace emptyModel [nsDefault] \<and>
   Namespaces emptyModel (NamespaceID (ns_name nsDefault)) = None \<and>
   Namespaces (addNamespace emptyModel [nsDefault, nsDefault]) (NamespaceID (ns_name nsDefault)) = Some (NewNamespaceNode nsDefault) \<and>
   dom (Namespaces (addNamespace emptyModel [nsDefault, nsDefault])) = {NamespaceID (ns_name nsDefault)} \<and>
   gatewayOne \<in> set [gatewayOne] \<and> Gateways nodesOnly (GatewayID (gw_namespace gatewayOne) (gw_name gatewayOne)) \<noteq> None \<and>
   addGateways nodesOnly [gatewayOne] = nodesOnly \<and> addGateways (addGateways nodesOnly [gatewayOne]) [gatewayOne] = addGateways nodesOnly [gatewayOne] \<and>
   addGateways emptyModel [gatewayOne, gatewayOne] = addGateways emptyModel [gatewayOne] \<and>
   Gateways emptyModel (GatewayID (gw_namespace gatewayOne) (gw_name gatewayOne)) = None \<and>
   Gateways (addGateways emptyModel [gatewayOne, gatewayOne]) (GatewayID (gw_namespace gatewayOne) (gw_name gatewayOne)) = Some (NewGatewayNode gatewayOne) \<and>
   dom (Gateways (addGateways emptyModel [gatewayOne, gatewayOne])) = {GatewayID (gw_namespace gatewayOne) (gw_name gatewayOne)} \<and>
   routeOne \<in> set [routeOne] \<and> HTTPRoutes nodesOnly (HTTPRouteID (hr_namespace routeOne) (hr_name routeOne)) \<noteq> None \<and>
   addHTTPRoutes nodesOnly [routeOne] = nodesOnly \<and> addHTTPRoutes (addHTTPRoutes nodesOnly [routeOne]) [routeOne] = addHTTPRoutes nodesOnly [routeOne] \<and>
   addHTTPRoutes emptyModel [routeOne, routeOne] = addHTTPRoutes emptyModel [routeOne] \<and>
   HTTPRoutes emptyModel (HTTPRouteID (hr_namespace routeOne) (hr_name routeOne)) = None \<and>
   HTTPRoutes (addHTTPRoutes emptyModel [routeOne, routeOne]) (HTTPRouteID (hr_namespace routeOne) (hr_name routeOne)) = Some (NewHTTPRouteNode routeOne) \<and>
   dom (HTTPRoutes (addHTTPRoutes emptyModel [routeOne, routeOne])) = {HTTPRouteID (hr_namespace routeOne) (hr_name routeOne)} \<and>
   backendOne \<in> set [backendOne] \<and> Backends nodesOnly (BackendID (u_group backendOne) (u_kind backendOne) (u_namespace backendOne) (u_name backendOne)) \<noteq> None \<and>
   addBackends nodesOnly [backendOne] = nodesOnly \<and> addBackends (addBackends nodesOnly [backendOne]) [backendOne] = addBackends nodesOnly [backendOne] \<and>
   addBackends emptyModel [backendOne, backendOne] = addBackends emptyModel [backendOne] \<and>
   Backends emptyModel (BackendID (u_group backendOne) (u_kind backendOne) (u_namespace backendOne) (u_name backendOne)) = None \<and>
   Backends (addBackends emptyModel [backendOne, backendOne]) (BackendID (u_group backendOne) (u_kind backendOne) (u_namespace backendOne) (u_name backendOne)) = Some (NewBackendNode backendOne) \<and>
   dom (Backends (addBackends emptyModel [backendOne, backendOne])) = {BackendID (u_group backendOne) (u_kind backendOne) (u_namespace backendOne) (u_name backendOne)} \<and>
   grantOne \<in> set [grantOne] \<and> ReferenceGrants nodesOnly (ReferenceGrantID (rg_namespace grantOne) (rg_name grantOne)) \<noteq> None \<and>
   addReferenceGrants nodesOnly [grantOne] = nodesOnly \<and> addReferenceGrants (addReferenceGrants nodesOnly [grantOne]) [grantOne] = addReferenceGrants nodesOnly [grantOne] \<and>
   addReferenceGrants emptyModel [grantOne, grantOne] = addReferenceGrants emptyModel [grantOne] \<and>
   ReferenceGrants emptyModel (ReferenceGrantID (rg_namespace grantOne) (rg_name grantOne)) = None \<and>
   ReferenceGrants (addReferenceGrants emptyModel [grantOne, grantOne]) (ReferenceGrantID (rg_namespace grantOne) (rg_name grantOne)) = Some (NewReferenceGrantNode grantOne) \<and>
   dom (ReferenceGrants (addReferenceGrants emptyModel [grantOne, grantOne])) = {ReferenceGrantID (rg_namespace grantOne) (rg_name grantOne)}"
  using insertion_idempotent[where rm = nodesOnly and c = classA and cs = "[classA]" and csa = "[]" and csb = "[]" and n = nsDefault and ns = "[nsDefault]" and nsa = "[]" and nsb = "[]" and g = gatewayOne and gs = "[gatewayOne]" and gsa = "[]" and gsb = "[]" and r = routeOne and rs = "[routeOne]" and rsa = "[]" and rsb = "[]" and b = backendOne and bs = "[backendOne]" and bsa = "[]" and bsb = "[]" and t = grantOne and ts = "[grantOne]" and tsa = "[]" and tsb = "[]"]
        insertion_idempotent[where rm = emptyModel and c = classA and cs = "[]" and csa = "[]" and csb = "[]" and n = nsDefault and ns = "[]" and nsa = "[]" and nsb = "[]" and g = gatewayOne and gs = "[]" and gsa = "[]" and gsb = "[]" and r = routeOne and rs = "[]" and rsa = "[]" and rsb = "[]" and b = backendOne and bs = "[]" and bsa = "[]" and bsb = "[]" and t = grantOne and ts = "[]" and tsa = "[]" and tsb = "[]"]
        insertion_idempotent[where rm = emptyModel and c = classA and cs = "[classA, classA]" and csa = "[classA]" and csb = "[]" and n = nsDefault and ns = "[nsDefault, nsDefault]" and nsa = "[nsDefault]" and nsb = "[]" and g = gatewayOne and gs = "[gatewayOne, gatewayOne]" and gsa = "[gatewayOne]" and gsb = "[]" and r = routeOne and rs = "[routeOne, routeOne]" and rsa = "[routeOne]" and rsb = "[]" and b = backendOne and bs = "[backendOne, backendOne]" and bsa = "[backendOne]" and bsb = "[]" and t = grantOne and ts = "[grantOne, grantOne]" and tsa = "[grantOne]" and tsb = "[]"]
  by (simp add: example_ids nodesOnly_maps emptyModel_def)

subsection \<open>Connecting nodes\<close>

lemmas connect_defs = connectGatewayWithGatewayClass_def connectHTTPRouteWithGateway_def
  connectHTTPRouteWithBackend_def connectGatewayWithNamespace_def connectHTTPRouteWithNamespace_def
  connectBackendWithNamespace_def connectReferenceGrantWithBackend_def

lemma connect_absent:
  "\<not> (present rm (fst (endpoints e)) \<and> present rm (snd (endpoints e))) \<Longrightarrow>
   connect vb rm e =
     (klog_V_ErrorS 1 vb (DoesNotExist (if present rm (fst (endpoints e)) then snd (endpoints e)
                                        else fst (endpoints e))), rm)"
  by (cases e) (auto simp: connect_defs split: option.splits)

lemma connect_present:
  "present rm (fst (endpoints e)) \<Longrightarrow> present rm (snd (endpoints e)) \<Longrightarrow>
   fst (connect vb rm e) = [] \<and> refersTo (snd (connect vb rm e)) e \<and> indexedBy (snd (connect vb rm e)) e"
  by (cases e) (auto simp: connect_defs split: option.splits)

lemma refersTo_connect:
  "refersTo (snd (connect vb rm e)) e' \<Longrightarrow>
   refersTo rm e' \<or> (e' = e \<and> present rm (fst (endpoints e)) \<and> present rm (snd (endpoints e)))"
  by (cases e; cases e') (auto simp: connect_defs split: option.splits if_splits)

lemma indexedBy_connect:
  "indexedBy (snd (connect vb rm e)) e' \<Longrightarrow>
   indexedBy rm e' \<or> (e' = e \<and> present rm (fst (endpoints e)) \<and> present rm (snd (endpoints e)))"
  by (cases e; cases e') (auto simp: connect_defs split: option.splits if_splits)

lemma indexedBy_connect_mono:
  "indexedBy rm e' \<Longrightarrow> indexedBy (snd (connect vb rm e)) e'"
  by (cases e; cases e') (auto simp: connect_defs split: option.splits if_splits)

lemma refersTo_connect_mono:
  "manyValued e' \<Longrightarrow> refersTo rm e' \<Longrightarrow> refersTo (snd (connect vb rm e)) e'"
  by (cases e; cases e') (auto simp: connect_defs split: option.splits if_splits)

lemma mirrored_connect:
  assumes "mirrored rm"
  shows "mirrored (snd (connect vb rm e))"
  unfolding mirrored_def
proof (intro allI impI)
  fix e'
  assume "refersTo (snd (connect vb rm e)) e'"
  then consider "refersTo rm e'"
    | "e' = e" "present rm (fst (endpoints e))" "present rm (snd (endpoints e))"
    using refersTo_connect by blast
  then show "indexedBy (snd (connect vb rm e)) e'"
  proof cases
    case 1
    with assms have "indexedBy rm e'" by (simp add: mirrored_def)
    then show ?thesis by (rule indexedBy_connect_mono)
  next
    case 2
    then show ?thesis using connect_present by blast
  qed
qed

lemma backedManyValued_connect:
  assumes "backedManyValued rm"
  shows "backedManyValued (snd (connect vb rm e))"
  unfolding backedManyValued_def
proof (intro allI impI)
  fix e'
  assume mv: "manyValued e'" and "indexedBy (snd (connect vb rm e)) e'"
  then consider "indexedBy rm e'"
    | "e' = e" "present rm (fst (endpoints e))" "present rm (snd (endpoints e))"
    using indexedBy_connect by blast
  then show "refersTo (snd (connect vb rm e)) e'"
  proof cases
    case 1
    with assms mv have "refersTo rm e'" by (simp add: backedManyValued_def)
    with mv show ?thesis by (rule refersTo_connect_mono)
  next
    case 2
    then show ?thesis using connect_present by blast
  qed
qed

lemma connectAll_invariant:
  "mirrored rm \<Longrightarrow> backedManyValued rm \<Longrightarrow>
   mirrored (connectAll vb rm es) \<and> backedManyValued (connectAll vb rm es)"
  by (induction es arbitrary: rm) (simp_all add: mirrored_connect backedManyValued_connect)

text \<open>
  Claim C7, as amended. For each of the seven connect operations: when an
  endpoint is missing from the model, the operation returns the model as it was
  and writes one log entry of level 1 for the missing endpoint (the first one
  looked up), so one diagnostic at verbosity 1 or more and none below; when both
  are there, it writes nothing and in the resulting model the first endpoint
  refers to the second and the second lists the first in its reverse index.
  Through any sequence of connect operations, every reference stored in a node
  stays matched by the reverse index of the node it points to, and every
  reverse-index entry of a many-valued edge (route and gateway, route and
  backend, grant and backend) stays matched by the reference it mirrors;
  an entry of a reverse index is never removed.
\<close>

theorem connect_updates_both_endpoints:
  "(\<not> (present rm (fst (endpoints e)) \<and> present rm (snd (endpoints e))) \<longrightarrow>
      connect vb rm e =
        (if 1 \<le> vb
         then [DoesNotExist (if present rm (fst (endpoints e)) then snd (endpoints e)
                             else fst (endpoints e))]
         else [], rm)) \<and>
   (present rm (fst (endpoints e)) \<and> present rm (snd (endpoints e)) \<longrightarrow>
      fst (connect vb rm e) = [] \<and> refersTo (snd (connect vb rm e)) e \<and>
      indexedBy (snd (connect vb rm e)) e) \<and>
   (mirrored rm \<and> backedManyValued rm \<longrightarrow>
      mirrored (connectAll vb rm es) \<and> backedManyValued (connectAll vb rm es)) \<and>
   (indexedBy rm e' \<longrightarrow> indexedBy (snd (connect vb rm e)) e')"
  using connect_absent[where rm = rm and e = e and vb = vb]
    connect_present[where rm = rm and e = e and vb = vb]
    connectAll_invariant[where rm = rm and es = es and vb = vb]
    indexedBy_connect_mono[where rm = rm and e = e and e' = e' and vb = vb]
  unfolding klog_V_ErrorS_def
  by blast

lemma nodesOnly_no_edges: "\<not> refersTo nodesOnly e" "\<not> indexedBy nodesOnly e"
  by (cases e; auto simp: nodesOnly_maps NewGatewayClassNode_def NewNamespaceNode_def NewGatewayNode_def
      NewHTTPRouteNode_def NewBackendNode_def NewReferenceGrantNode_def split: option.splits if_splits)+

lemma nodesOnly_bidirectional: "bidirectional nodesOnly" "backedManyValued nodesOnly"
  by (simp_all add: bidirectional_def mirrored_def backed_def backedManyValued_def nodesOnly_no_edges)

text \<open>
  The claim as stated fails. At the default verbosity 0 a connect operation with
  a missing endpoint writes nothing. And references are not kept bidirectional
  where they are single-valued: connecting a gateway to a second class overwrites
  the gateway's reference, and the first class keeps the gateway in its reverse
  index.
\<close>

theorem reconnected_gateway_counterexample:
  "\<not> present emptyModel (GatewayRef idGatewayOne) \<and>
   connect 0 emptyModel (GatewayWithGatewayClass idGatewayOne idClassA) = ([], emptyModel) \<and>
   bidirectional nodesOnly \<and>
   \<not> bidirectional (connectAll 0 nodesOnly
        [GatewayWithGatewayClass idGatewayOne idClassA, GatewayWithGatewayClass idGatewayOne idClassB])"
proof -
  let ?rm = "connectAll 0 nodesOnly
        [GatewayWithGatewayClass idGatewayOne idClassA, GatewayWithGatewayClass idGatewayOne idClassB]"
  have ne: "idClassA \<noteq> idClassB" by (simp add: idClassA_def idClassB_def)
  have "indexedBy ?rm (GatewayWithGatewayClass idGatewayOne idClassA)"
    using ne by (simp add: connectGatewayWithGatewayClass_def nodesOnly_maps)
  moreover have "\<not> refersTo ?rm (GatewayWithGatewayClass idGatewayOne idClassA)"
    using ne by (simp add: connectGatewayWithGatewayClass_def nodesOnly_maps)
  ultimately have "\<not> backed ?rm" unfolding backed_def by blast
  moreover have "\<not> present emptyModel (GatewayRef idGatewayOne)"
    "connect 0 emptyModel (GatewayWithGatewayClass idGatewayOne idClassA) = ([], emptyModel)"
    by (simp_all add: emptyModel_def connectGatewayWithGatewayClass_def klog_V_ErrorS_def)
  ultimately show ?thesis using nodesOnly_bidirectional(1) by (auto simp: bidirectional_def)
qed

theorem connect_updates_both_endpoints_witness:
  "\<not> (present emptyModel (fst (endpoints (GatewayWithGatewayClass idGatewayOne idClassA))) \<and>
      present emptyModel (snd (endpoints (GatewayWithGatewayClass idGatewayOne idClassA)))) \<and>
   connect 1 emptyModel (GatewayWithGatewayClass idGatewayOne idClassA)
     = ([DoesNotExist (GatewayRef idGatewayOne)], emptyModel) \<and>
   connect 0 emptyModel (GatewayWithGatewayClass idGatewayOne idClassA) = ([], emptyModel) \<and>
   present nodesOnly (fst (endpoints (GatewayWithGatewayClass idGatewayOne idClassA))) \<and>
   present nodesOnly (snd (endpoints (GatewayWithGatewayClass idGatewayOne idClassA))) \<and>
   fst (connect 1 nodesOnly (GatewayWithGatewayClass idGatewayOne idClassA)) = [] \<and>
   indexedBy (snd (connect 1 nodesOnly (GatewayWithGatewayClass idGatewayOne idClassA)))
     (GatewayWithGatewayClass idGatewayOne idClassA) \<and>
   indexedBy
     (snd (connect 1 (snd (connect 1 nodesOnly (GatewayWithGatewayClass idGatewayOne idClassA)))
             (GatewayWithGatewayClass idGatewayOne idClassB)))
     (GatewayWithGatewayClass idGatewayOne idClassA) \<and>
   mirrored nodesOnly \<and> backedManyValued nodesOnly \<and>
   mirrored (connectAll 1 nodesOnly
     [GatewayWithGatewayClass idGatewayOne idClassA, GatewayWithGatewayClass idGatewayOne idClassB,
      HTTPRouteWithGateway idRouteOne idGatewayOne])"
proof -
  let ?e = "GatewayWithGatewayClass idGatewayOne idClassA"
  let ?es = "[GatewayWithGatewayClass idGatewayOne idClassA, GatewayWithGatewayClass idGatewayOne idClassB,
          HTTPRouteWithGateway idRouteOne idGatewayOne]"
  have a: "\<not> present emptyModel (GatewayRef idGatewayOne)" by (simp add: emptyModel_def)
  have b: "present nodesOnly (GatewayRef idGatewayOne)" "present nodesOnly (GatewayClassRef idClassA)"
    by (simp_all add: nodesOnly_maps)
  have c: "mirrored nodesOnly" "backedManyValued nodesOnly"
    using nodesOnly_bidirectional by (simp_all add: bidirectional_def)
  have d: "indexedBy (snd (connect 1 nodesOnly ?e)) ?e"
    using b connect_updates_both_endpoints[where rm = nodesOnly and e = ?e and es = "[]" and vb = 1
        and e' = ?e]
    by simp
  have "indexedBy (snd (connect 1 (snd (connect 1 nodesOnly ?e))
                           (GatewayWithGatewayClass idGatewayOne idClassB))) ?e"
    using d connect_updates_both_endpoints[where rm = "snd (connect 1 nodesOnly ?e)"
        and e = "GatewayWithGatewayClass idGatewayOne idClassB" and es = "[]" and vb = 1 and e' = ?e]
    by blast
  then show ?thesis
    using a b c d
      connect_updates_both_endpoints[where rm = emptyModel and e = ?e and es = "[]" and vb = 1
        and e' = ?e]
      connect_updates_both_endpoints[where rm = emptyModel and e = ?e and es = "[]" and vb = 0
        and e' = ?e]
      connect_updates_both_endpoints[where rm = nodesOnly and e = ?e and es = ?es and vb = 1
        and e' = ?e]
    by simp
qed

subsection \<open>Attaching policies\<close>

lemma attachPolicy_unsupported:
  "lookedUp p = None \<Longrightarrow> attachPolicy vb rm p = ([], rm)"
  by (auto simp: lookedUp_def attachPolicy_def Let_def split: if_splits)

lemma attachPolicy_absent:
  "lookedUp p = Some t \<Longrightarrow> \<not> present rm t \<Longrightarrow> attachPolicy vb rm p = (klog_V_ErrorS 1 vb (SkippingPolicy (p_Name p) t), rm)"
  by (auto simp: lookedUp_def attachPolicy_def Let_def split: if_splits)

lemma attachPolicy_present:
  "lookedUp p = Some t \<Longrightarrow> present rm t \<Longrightarrow>
   \<exists>pn. fst (attachPolicy vb rm p) = [] \<and> pn_Policy pn = p \<and> backReferences pn = [t] \<and>
        Policies (snd (attachPolicy vb rm p)) (pn_ID (NewPolicyNode p)) = Some pn \<and>
        policiesAt (snd (attachPolicy vb rm p)) t (pn_ID (NewPolicyNode p)) = Some pn"
  by (auto simp: lookedUp_def attachPolicy_def Let_def backReferences_def NewPolicyNode_def pn_ID_def
      split: if_splits)

lemma addPolicyIfTargetExists_append:
  "addPolicyIfTargetExists vb rm (ps @ qs) =
     (fst (addPolicyIfTargetExists vb rm ps) @ fst (addPolicyIfTargetExists vb (snd (addPolicyIfTargetExists vb rm ps)) qs),
      snd (addPolicyIfTargetExists vb (snd (addPolicyIfTargetExists vb rm ps)) qs))"
  by (induction ps arbitrary: rm) (auto split: prod.splits)

lemma addPolicyIfTargetExists_Cons:
  "addPolicyIfTargetExists vb rm (p # qs) =
     (fst (attachPolicy vb rm p) @ fst (addPolicyIfTargetExists vb (snd (attachPolicy vb rm p)) qs),
      snd (addPolicyIfTargetExists vb (snd (attachPolicy vb rm p)) qs))"
  by (auto split: prod.splits)

lemma addPolicyIfTargetExists_middle:
  "addPolicyIfTargetExists vb rm (ps @ p # qs) =
     (let before = addPolicyIfTargetExists vb rm ps;
          this = attachPolicy vb (snd before) p;
          after = addPolicyIfTargetExists vb (snd this) qs
      in (fst before @ fst this @ fst after, snd after))"
  unfolding addPolicyIfTargetExists_append[of vb rm ps "p # qs"] addPolicyIfTargetExists_Cons Let_def
  by simp


text \<open>
  Claim C6, as amended. For a policy for which the attach operation looks up a
  node (GatewayClass, Gateway or HTTPRoute of the routing group by kind, a
  Namespace of the core group by name, a Backend for every target outside the
  routing group): when the model has no such node the operation returns the
  model as it was and writes one log entry of level 1 with the policy's name and
  the identity looked up, so one diagnostic at verbosity 1 or more and none
  below; when it has the node, it writes nothing and the resulting model holds
  one policy node for the policy, under the policy's identity, both in the
  global policy map and in the local policy map of the target, with the target
  as its only back-reference. Within a batch, the policy is handled on the model
  its predecessors left, and its successors are handled on the model it leaves,
  whatever the outcome.
\<close>

theorem policy_attached_or_dropped:
  "(lookedUp p = Some t \<and> \<not> present rm t \<longrightarrow>
      attachPolicy vb rm p = (if 1 \<le> vb then [SkippingPolicy (p_Name p) t] else [], rm)) \<and>
   (lookedUp p = Some t \<and> present rm t \<longrightarrow>
      (\<exists>pn. fst (attachPolicy vb rm p) = [] \<and> pn_Policy pn = p \<and> backReferences pn = [t] \<and>
            Policies (snd (attachPolicy vb rm p)) (pn_ID (NewPolicyNode p)) = Some pn \<and>
            policiesAt (snd (attachPolicy vb rm p)) t (pn_ID (NewPolicyNode p)) = Some pn)) \<and>
   addPolicyIfTargetExists vb rm (ps @ p # qs) =
     (let before = addPolicyIfTargetExists vb rm ps;
          this = attachPolicy vb (snd before) p;
          after = addPolicyIfTargetExists vb (snd this) qs
      in (fst before @ fst this @ fst after, snd after))"
  using attachPolicy_absent[where p = p and t = t and rm = rm and vb = vb]
    attachPolicy_present[where p = p and t = t and rm = rm and vb = vb]
    addPolicyIfTargetExists_middle[where rm = rm and ps = ps and p = p and qs = qs and vb = vb]
  unfolding klog_V_ErrorS_def
  by blast

lemma example_policy_simps:
  "p_TargetRef (examplePolicy grp knd nmspace nm inh tgt) = tgt"
  "p_Name (examplePolicy grp knd nmspace nm inh tgt) = nm"
  "p_IsInherited (examplePolicy grp knd nmspace nm inh tgt) = inh"
  "p_PolicyCrdID (examplePolicy grp knd nmspace nm inh tgt) = knd @ ''.'' @ grp"
  "u_group (p_Unstructured (examplePolicy grp knd nmspace nm inh tgt)) = grp"
  "u_kind (p_Unstructured (examplePolicy grp knd nmspace nm inh tgt)) = knd"
  "u_namespace (p_Unstructured (examplePolicy grp knd nmspace nm inh tgt)) = nmspace"
  "u_name (p_Unstructured (examplePolicy grp knd nmspace nm inh tgt)) = nm"
  by (simp_all add: examplePolicy_def)

lemma lookedUp_examples:
  "lookedUp timeoutOnGatewayOne = Some (GatewayRef idGatewayOne)"
  "lookedUp timeoutOnGRPCRoute = None"
  by (simp_all add: lookedUp_def timeoutOnGatewayOne_def timeoutOnGRPCRoute_def example_policy_simps
      targetGatewayOne_def targetGRPCRoute_def gatewayv1_GroupName_def idGatewayOne_def)

text \<open>
  The claim as stated fails. At the default verbosity 0 a policy whose target
  gateway is missing is dropped and nothing is written. A policy that targets
  another kind of the routing group is not looked up as a backend: the model has
  no node it could resolve to, and nothing is written at any verbosity.
\<close>

theorem silent_drop_counterexample:
  "lookedUp timeoutOnGatewayOne = Some (GatewayRef idGatewayOne) \<and>
   \<not> present emptyModel (GatewayRef idGatewayOne) \<and>
   attachPolicy 0 emptyModel timeoutOnGatewayOne = ([], emptyModel) \<and>
   ref_Group (p_TargetRef timeoutOnGRPCRoute) = gatewayv1_GroupName \<and>
   \<not> present emptyModel
       (BackendRef (BackendID (ref_Group (p_TargetRef timeoutOnGRPCRoute))
                              (ref_Kind (p_TargetRef timeoutOnGRPCRoute))
                              (ref_Namespace (p_TargetRef timeoutOnGRPCRoute))
                              (ref_Name (p_TargetRef timeoutOnGRPCRoute)))) \<and>
   attachPolicy 1 emptyModel timeoutOnGRPCRoute = ([], emptyModel)"
  by (simp add: attachPolicy_def timeoutOnGRPCRoute_def timeoutOnGatewayOne_def example_policy_simps
      targetGRPCRoute_def targetGatewayOne_def gatewayv1_GroupName_def emptyModel_def
      lookedUp_def idGatewayOne_def klog_V_ErrorS_def)

theorem policy_attached_or_dropped_witness:
  "lookedUp timeoutOnGatewayOne = Some (GatewayRef idGatewayOne) \<and>
   \<not> present emptyModel (GatewayRef idGatewayOne) \<and>
   attachPolicy 1 emptyModel timeoutOnGatewayOne
     = ([SkippingPolicy ''timeout-gw'' (GatewayRef idGatewayOne)], emptyModel) \<and>
   attachPolicy 0 emptyModel timeoutOnGatewayOne = ([], emptyModel) \<and>
   present nodesOnly (GatewayRef idGatewayOne) \<and>
   fst (attachPolicy 1 nodesOnly timeoutOnGatewayOne) = [] \<and>
   policiesAt (snd (attachPolicy 1 nodesOnly timeoutOnGatewayOne)) (GatewayRef idGatewayOne)
       (pn_ID (NewPolicyNode timeoutOnGatewayOne))
     = Policies (snd (attachPolicy 1 nodesOnly timeoutOnGatewayOne))
         (pn_ID (NewPolicyNode timeoutOnGatewayOne))"
proof -
  have a: "\<not> present emptyModel (GatewayRef idGatewayOne)" by (simp add: emptyModel_def)
  have b: "present nodesOnly (GatewayRef idGatewayOne)" by (simp add: nodesOnly_maps)
  have n: "p_Name timeoutOnGatewayOne = ''timeout-gw''"
    by (simp add: timeoutOnGatewayOne_def example_policy_simps)
  show ?thesis
    using a b n lookedUp_examples(1)
      policy_attached_or_dropped[where p = timeoutOnGatewayOne and t = "GatewayRef idGatewayOne"
        and rm = emptyModel and ps = "[]" and qs = "[]" and vb = 1]
      policy_attached_or_dropped[where p = timeoutOnGatewayOne and t = "GatewayRef idGatewayOne"
        and rm = emptyModel and ps = "[]" and qs = "[]" and vb = 0]
      policy_attached_or_dropped[where p = timeoutOnGatewayOne and t = "GatewayRef idGatewayOne"
        and rm = nodesOnly and ps = "[]" and qs = "[]" and vb = 1]
    by auto
qed

subsection \<open>The sorted slice of policies\<close>

















subsection \<open>Effective policies of gateways\<close>

lemma effectivePoliciesOfGateway_frame:
  "GatewayClasses rm' = GatewayClasses rm \<Longrightarrow> Namespaces rm' = Namespaces rm \<Longrightarrow>
   effectivePoliciesOfGateway cap it rm' g gn = effectivePoliciesOfGateway cap it rm g gn"
  by (simp add: effectivePoliciesOfGateway_def Let_def split: option.splits)

lemma gatewaysLoop_frame:
  "GatewayClasses (snd (gatewaysLoop cap it gs rm)) = GatewayClasses rm \<and>
   Namespaces (snd (gatewaysLoop cap it gs rm)) = Namespaces rm \<and>
   HTTPRoutes (snd (gatewaysLoop cap it gs rm)) = HTTPRoutes rm \<and>
   Backends (snd (gatewaysLoop cap it gs rm)) = Backends rm \<and>
   ReferenceGrants (snd (gatewaysLoop cap it gs rm)) = ReferenceGrants rm \<and>
   Policies (snd (gatewaysLoop cap it gs rm)) = Policies rm"
  by (induction gs arbitrary: rm) (auto split: option.splits sum.splits)

lemma gatewaysLoop_untouched:
  "g \<notin> set gs \<Longrightarrow> Gateways (snd (gatewaysLoop cap it gs rm)) g = Gateways rm g"
  by (induction gs arbitrary: rm) (auto split: option.splits sum.splits)


lemma gatewaysLoop_append:
  "gatewaysLoop cap it (gs @ hs) rm =
     (case gatewaysLoop cap it gs rm of
        (None, rm1) \<Rightarrow> gatewaysLoop cap it hs rm1
      | (Some f, rm1) \<Rightarrow> (Some f, rm1))"
  by (induction gs arbitrary: rm) (auto split: option.splits sum.splits prod.splits)






subsection \<open>Effective policies of routes\<close>

lemma gatewaysOfHTTPRouteLoop_frame:
  "Gateways rm' = Gateways rm \<Longrightarrow>
   gatewaysOfHTTPRouteLoop cap rm' rn byNamespace byRoute gs result
     = gatewaysOfHTTPRouteLoop cap rm rn byNamespace byRoute gs result"
  by (induction gs arbitrary: result) (simp_all add: Let_def split: option.splits sum.splits)

lemma effectivePoliciesOfHTTPRoute_frame:
  "Namespaces rm' = Namespaces rm \<Longrightarrow> Gateways rm' = Gateways rm \<Longrightarrow>
   effectivePoliciesOfHTTPRoute cap it rm' r rn = effectivePoliciesOfHTTPRoute cap it rm r rn"
  unfolding effectivePoliciesOfHTTPRoute_def
  using gatewaysOfHTTPRouteLoop_frame[of rm' rm cap rn]
  by (simp add: Let_def split: option.splits sum.splits)

lemma httpRoutesLoop_frame:
  "GatewayClasses (snd (httpRoutesLoop cap it rs rm)) = GatewayClasses rm \<and>
   Namespaces (snd (httpRoutesLoop cap it rs rm)) = Namespaces rm \<and>
   Gateways (snd (httpRoutesLoop cap it rs rm)) = Gateways rm \<and>
   Backends (snd (httpRoutesLoop cap it rs rm)) = Backends rm \<and>
   ReferenceGrants (snd (httpRoutesLoop cap it rs rm)) = ReferenceGrants rm \<and>
   Policies (snd (httpRoutesLoop cap it rs rm)) = Policies rm"
  by (induction rs arbitrary: rm) (auto split: option.splits sum.splits)

lemma httpRoutesLoop_untouched:
  "r \<notin> set rs \<Longrightarrow> HTTPRoutes (snd (httpRoutesLoop cap it rs rm)) r = HTTPRoutes rm r"
  by (induction rs arbitrary: rm) (auto split: option.splits sum.splits)

lemma httpRoutesLoop_append:
  "httpRoutesLoop cap it (rs @ ss) rm =
     (case httpRoutesLoop cap it rs rm of
        (None, rm1) \<Rightarrow> httpRoutesLoop cap it ss rm1
      | (Some f, rm1) \<Rightarrow> (Some f, rm1))"
  by (induction rs arbitrary: rm) (auto split: option.splits sum.splits prod.splits)








subsection \<open>Effective policies of backends\<close>









lemma httpRoutesOfBackendLoop_frame:
  "HTTPRoutes rm' = HTTPRoutes rm \<Longrightarrow>
   httpRoutesOfBackendLoop cap it rm' b bn rs result = httpRoutesOfBackendLoop cap it rm b bn rs result"
  by (induction rs arbitrary: result) (simp_all split: option.splits sum.splits)

lemma effectivePoliciesOfBackend_frame:
  "Namespaces rm' = Namespaces rm \<Longrightarrow> HTTPRoutes rm' = HTTPRoutes rm \<Longrightarrow>
   effectivePoliciesOfBackend cap it rm' b bn = effectivePoliciesOfBackend cap it rm b bn"
  unfolding effectivePoliciesOfBackend_def
  using httpRoutesOfBackendLoop_frame[of rm' rm cap it b bn]
  by (simp add: Let_def split: option.splits sum.splits)

lemma backendsLoop_frame:
  "GatewayClasses (snd (backendsLoop cap it bs rm)) = GatewayClasses rm \<and>
   Namespaces (snd (backendsLoop cap it bs rm)) = Namespaces rm \<and>
   Gateways (snd (backendsLoop cap it bs rm)) = Gateways rm \<and>
   HTTPRoutes (snd (backendsLoop cap it bs rm)) = HTTPRoutes rm \<and>
   ReferenceGrants (snd (backendsLoop cap it bs rm)) = ReferenceGrants rm \<and>
   Policies (snd (backendsLoop cap it bs rm)) = Policies rm"
  by (induction bs arbitrary: rm) (auto split: option.splits sum.splits)

lemma backendsLoop_untouched:
  "b \<notin> set bs \<Longrightarrow> Backends (snd (backendsLoop cap it bs rm)) b = Backends rm b"
  by (induction bs arbitrary: rm) (auto split: option.splits sum.splits)

lemma backendsLoop_append:
  "backendsLoop cap it (bs @ cs) rm =
     (case backendsLoop cap it bs rm of
        (None, rm1) \<Rightarrow> backendsLoop cap it cs rm1
      | (Some f, rm1) \<Rightarrow> (Some f, rm1))"
  by (induction bs arbitrary: rm) (auto split: option.splits sum.splits prod.splits)






subsection \<open>A failing node ends the pass\<close>

lemma gateways_pass_stops:
  assumes "rangeGateways it = pre @ g # post"
    "gatewaysLoop cap it pre rm = (None, rm1)"
    "g \<notin> set pre" "Gateways rm g = Some gn" "gwn_GatewayClass gn \<noteq> None"
    "effectivePoliciesOfGateway cap it rm g gn = Inl f"
  shows "calculateEffectivePoliciesForGateways cap it rm = (Some f, rm1)"
proof -
  note l = assms(2)
  then have rm1: "rm1 = snd (gatewaysLoop cap it pre rm)" by simp
  have "Gateways rm1 g = Some gn"
    unfolding rm1 using assms(3,4) by (simp add: gatewaysLoop_untouched)
  moreover have "effectivePoliciesOfGateway cap it rm1 g gn = effectivePoliciesOfGateway cap it rm g gn"
    unfolding rm1 by (rule effectivePoliciesOfGateway_frame) (simp_all add: gatewaysLoop_frame)
  then have "effectivePoliciesOfGateway cap it rm1 g gn = Inl f"
    using assms(6) by simp
  ultimately have "gatewaysLoop cap it (g # post) rm1 = (Some f, rm1)"
    using assms(5) by auto
  then show ?thesis
    using l by (simp add: calculateEffectivePoliciesForGateways_def assms(1) gatewaysLoop_append)
qed

lemma gateways_pass_rest_untouched:
  assumes "gatewaysLoop cap it pre rm = (None, rm1)"
    "g \<notin> set pre"
  shows "Gateways rm1 g = Gateways rm g"
proof -
  have "rm1 = snd (gatewaysLoop cap it pre rm)"
    using assms(1) by simp
  then show ?thesis using assms(2) by (simp add: gatewaysLoop_untouched)
qed

lemma routes_pass_stops:
  assumes "rangeHTTPRoutes it = pre @ r # post"
    "httpRoutesLoop cap it pre rm = (None, rm1)"
    "r \<notin> set pre" "HTTPRoutes rm r = Some rn"
    "effectivePoliciesOfHTTPRoute cap it rm r rn = Inl f"
  shows "calculateEffectivePoliciesForHTTPRoutes cap it rm = (Some f, rm1)"
proof -
  note l = assms(2)
  then have rm1: "rm1 = snd (httpRoutesLoop cap it pre rm)" by simp
  have "HTTPRoutes rm1 r = Some rn"
    unfolding rm1 using assms(3,4) by (simp add: httpRoutesLoop_untouched)
  moreover have "effectivePoliciesOfHTTPRoute cap it rm1 r rn = effectivePoliciesOfHTTPRoute cap it rm r rn"
    unfolding rm1 by (rule effectivePoliciesOfHTTPRoute_frame) (simp_all add: httpRoutesLoop_frame)
  then have "effectivePoliciesOfHTTPRoute cap it rm1 r rn = Inl f"
    using assms(5) by simp
  ultimately have "httpRoutesLoop cap it (r # post) rm1 = (Some f, rm1)"
    by auto
  then show ?thesis
    using l by (simp add: calculateEffectivePoliciesForHTTPRoutes_def assms(1) httpRoutesLoop_append)
qed

lemma routes_pass_rest_untouched:
  assumes "httpRoutesLoop cap it pre rm = (None, rm1)"
    "r \<notin> set pre"
  shows "HTTPRoutes rm1 r = HTTPRoutes rm r"
proof -
  have "rm1 = snd (httpRoutesLoop cap it pre rm)"
    using assms(1) by simp
  then show ?thesis using assms(2) by (simp add: httpRoutesLoop_untouched)
qed

lemma backends_pass_stops:
  assumes "rangeBackends it = pre @ b # post"
    "backendsLoop cap it pre rm = (None, rm1)"
    "b \<notin> set pre" "Backends rm b = Some bn"
    "effectivePoliciesOfBackend cap it rm b bn = Inl f"
  shows "calculateEffectivePoliciesForBackends cap it rm = (Some f, rm1)"
proof -
  note l = assms(2)
  then have rm1: "rm1 = snd (backendsLoop cap it pre rm)" by simp
  have "Backends rm1 b = Some bn"
    unfolding rm1 using assms(3,4) by (simp add: backendsLoop_untouched)
  moreover have "effectivePoliciesOfBackend cap it rm1 b bn = effectivePoliciesOfBackend cap it rm b bn"
    unfolding rm1 by (rule effectivePoliciesOfBackend_frame) (simp_all add: backendsLoop_frame)
  then have "effectivePoliciesOfBackend cap it rm1 b bn = Inl f"
    using assms(5) by simp
  ultimately have "backendsLoop cap it (b # post) rm1 = (Some f, rm1)"
    by auto
  then show ?thesis
    using l by (simp add: calculateEffectivePoliciesForBackends_def assms(1) backendsLoop_append)
qed

lemma backends_pass_rest_untouched:
  assumes "backendsLoop cap it pre rm = (None, rm1)"
    "b \<notin> set pre"
  shows "Backends rm1 b = Backends rm b"
proof -
  have "rm1 = snd (backendsLoop cap it pre rm)"
    using assms(1) by simp
  then show ?thesis using assms(2) by (simp add: backendsLoop_untouched)
qed

lemma calculateEffectivePolicies_stops:
  "fst (calculateEffectivePoliciesForGateways cap it rm) = Some f \<Longrightarrow>
   calculateEffectivePolicies cap it rm = calculateEffectivePoliciesForGateways cap it rm"
  "fst (calculateEffectivePoliciesForGateways cap it rm) = None \<Longrightarrow>
   fst (calculateEffectivePoliciesForHTTPRoutes cap it
          (snd (calculateEffectivePoliciesForGateways cap it rm))) = Some f \<Longrightarrow>
   calculateEffectivePolicies cap it rm
     = calculateEffectivePoliciesForHTTPRoutes cap it
         (snd (calculateEffectivePoliciesForGateways cap it rm))"
  "fst (calculateEffectivePoliciesForGateways cap it rm) = None \<Longrightarrow>
   fst (calculateEffectivePoliciesForHTTPRoutes cap it
          (snd (calculateEffectivePoliciesForGateways cap it rm))) = None \<Longrightarrow>
   calculateEffectivePolicies cap it rm
     = calculateEffectivePoliciesForBackends cap it
         (snd (calculateEffectivePoliciesForHTTPRoutes cap it
                 (snd (calculateEffectivePoliciesForGateways cap it rm))))"
  by (auto simp: calculateEffectivePolicies_def split: prod.splits option.splits)


text \<open>
  Claim C4, as amended. If the merge capability raises a conflict error while a
  pass resolves one node, the pass stops at that node and returns the error to
  the caller. What the nodes visited before it were given stays in the model (no
  rollback); the conflicting node and every node that was to be visited after it
  are left as they were, uncomputed; and \<open>calculateEffectivePolicies\<close> returns the
  error of the first pass that fails without running the passes after it.
\<close>

theorem conflict_stops_the_pass:
  "(rangeGateways it = gsDone @ g # gsLeft \<and> distinct (rangeGateways it) \<and>
    gatewaysLoop cap it gsDone rm = (None, rmG) \<and> Gateways rm g = Some gn \<and>
    gwn_GatewayClass gn \<noteq> None \<and> effectivePoliciesOfGateway cap it rm g gn = Inl (Err e) \<longrightarrow>
      calculateEffectivePoliciesForGateways cap it rm = (Some (Err e), rmG) \<and>
      calculateEffectivePolicies cap it rm = (Some (Err e), rmG) \<and>
      (\<forall>g' \<in> set (g # gsLeft). Gateways rmG g' = Gateways rm g') \<and>
      HTTPRoutes rmG = HTTPRoutes rm \<and> Backends rmG = Backends rm) \<and>
   (rangeHTTPRoutes it = rsDone @ r # rsLeft \<and> distinct (rangeHTTPRoutes it) \<and>
    httpRoutesLoop cap it rsDone rm = (None, rmR) \<and> HTTPRoutes rm r = Some rn \<and>
    effectivePoliciesOfHTTPRoute cap it rm r rn = Inl (Err e) \<longrightarrow>
      calculateEffectivePoliciesForHTTPRoutes cap it rm = (Some (Err e), rmR) \<and>
      (\<forall>r' \<in> set (r # rsLeft). HTTPRoutes rmR r' = HTTPRoutes rm r') \<and>
      Backends rmR = Backends rm) \<and>
   (rangeBackends it = bsDone @ b # bsLeft \<and> distinct (rangeBackends it) \<and>
    backendsLoop cap it bsDone rm = (None, rmB) \<and> Backends rm b = Some bn \<and>
    effectivePoliciesOfBackend cap it rm b bn = Inl (Err e) \<longrightarrow>
      calculateEffectivePoliciesForBackends cap it rm = (Some (Err e), rmB) \<and>
      (\<forall>b' \<in> set (b # bsLeft). Backends rmB b' = Backends rm b')) \<and>
   (fst (calculateEffectivePoliciesForGateways cap it rm) = None \<and>
    fst (calculateEffectivePoliciesForHTTPRoutes cap it
           (snd (calculateEffectivePoliciesForGateways cap it rm))) = Some f \<longrightarrow>
      calculateEffectivePolicies cap it rm
        = calculateEffectivePoliciesForHTTPRoutes cap it
            (snd (calculateEffectivePoliciesForGateways cap it rm)))"
proof (intro conjI impI)
  assume h: "rangeGateways it = gsDone @ g # gsLeft \<and> distinct (rangeGateways it) \<and>
    gatewaysLoop cap it gsDone rm = (None, rmG) \<and> Gateways rm g = Some gn \<and>
    gwn_GatewayClass gn \<noteq> None \<and> effectivePoliciesOfGateway cap it rm g gn = Inl (Err e)"
  then have np: "g \<notin> set gsDone" "\<forall>g' \<in> set gsLeft. g' \<notin> set gsDone" by auto
  show p: "calculateEffectivePoliciesForGateways cap it rm = (Some (Err e), rmG)"
    using h np(1) gateways_pass_stops[of it gsDone g gsLeft cap rm rmG gn "Err e"] by blast
  then show "calculateEffectivePolicies cap it rm = (Some (Err e), rmG)"
    using calculateEffectivePolicies_stops(1)[of cap it rm "Err e"] by simp
  show "\<forall>g' \<in> set (g # gsLeft). Gateways rmG g' = Gateways rm g'"
    using h np gateways_pass_rest_untouched[of cap it gsDone rm rmG] by auto
  have "rmG = snd (gatewaysLoop cap it gsDone rm)" using h by simp
  then show "HTTPRoutes rmG = HTTPRoutes rm" "Backends rmG = Backends rm"
    by (simp_all add: gatewaysLoop_frame)
next
  assume h: "rangeHTTPRoutes it = rsDone @ r # rsLeft \<and> distinct (rangeHTTPRoutes it) \<and>
    httpRoutesLoop cap it rsDone rm = (None, rmR) \<and> HTTPRoutes rm r = Some rn \<and>
    effectivePoliciesOfHTTPRoute cap it rm r rn = Inl (Err e)"
  then have np: "r \<notin> set rsDone" "\<forall>r' \<in> set rsLeft. r' \<notin> set rsDone" by auto
  show "calculateEffectivePoliciesForHTTPRoutes cap it rm = (Some (Err e), rmR)"
    using h np(1) routes_pass_stops[of it rsDone r rsLeft cap rm rmR rn "Err e"] by blast
  show "\<forall>r' \<in> set (r # rsLeft). HTTPRoutes rmR r' = HTTPRoutes rm r'"
    using h np routes_pass_rest_untouched[of cap it rsDone rm rmR] by auto
  have "rmR = snd (httpRoutesLoop cap it rsDone rm)" using h by simp
  then show "Backends rmR = Backends rm"
    by (simp add: httpRoutesLoop_frame)
next
  assume h: "rangeBackends it = bsDone @ b # bsLeft \<and> distinct (rangeBackends it) \<and>
    backendsLoop cap it bsDone rm = (None, rmB) \<and> Backends rm b = Some bn \<and>
    effectivePoliciesOfBackend cap it rm b bn = Inl (Err e)"
  then have np: "b \<notin> set bsDone" "\<forall>b' \<in> set bsLeft. b' \<notin> set bsDone" by auto
  show "calculateEffectivePoliciesForBackends cap it rm = (Some (Err e), rmB)"
    using h np(1) backends_pass_stops[of it bsDone b bsLeft cap rm rmB bn "Err e"] by blast
  show "\<forall>b' \<in> set (b # bsLeft). Backends rmB b' = Backends rm b'"
    using h np backends_pass_rest_untouched[of cap it bsDone rm rmB] by auto
next
  assume "fst (calculateEffectivePoliciesForGateways cap it rm) = None \<and>
    fst (calculateEffectivePoliciesForHTTPRoutes cap it
           (snd (calculateEffectivePoliciesForGateways cap it rm))) = Some f"
  then show "calculateEffectivePolicies cap it rm
        = calculateEffectivePoliciesForHTTPRoutes cap it
            (snd (calculateEffectivePoliciesForGateways cap it rm))"
    using calculateEffectivePolicies_stops(2)[of cap it rm f] by blast
qed


lemmas example_defs = nodesOnly_def emptyModel_def Let_def gwcn_ID_def nsn_ID_def gwn_ID_def hrn_ID_def
  bkn_ID_def rgn_ID_def NewGatewayClassNode_def NewNamespaceNode_def NewGatewayNode_def
  NewHTTPRouteNode_def NewBackendNode_def NewReferenceGrantNode_def
  classA_def classB_def nsDefault_def gatewayOne_def gatewayTwo_def routeOne_def routeTwo_def
  backendOne_def grantOne_def idClassA_def idClassB_def idDefault_def idGatewayOne_def
  idGatewayTwo_def idRouteOne_def idRouteTwo_def idBackendOne_def idGrantOne_def
  wiring_def cluster_def connectGatewayWithGatewayClass_def connectHTTPRouteWithGateway_def
  connectHTTPRouteWithBackend_def connectGatewayWithNamespace_def connectHTTPRouteWithNamespace_def
  connectBackendWithNamespace_def connectReferenceGrantWithBackend_def
  attachPolicy_def NewPolicyNode_def pn_ID_def examplePolicy_def
  targetClassA_def targetDefault_def targetGatewayOne_def targetRouteOne_def targetRouteTwo_def
  targetBackendOne_def timeoutOnClassA_def retryOnDefault_def timeoutOnGatewayOne_def
  headerOnRouteOne_def headerOnRouteTwo_def healthOnBackendOne_def
  gatewayv1_GroupName_def corev1_GroupName_def exampleIteration_def
  deref_def convertPoliciesMapToSlice_def allPolicyKeys_def policyKey_def
  exampleCapability_def sortKey_def orEmpty_def


















lemmas conflict_defs = conflictAtGateway_def conflictAtHTTPRoute_def conflictAtBackend_def
  conflictIteration_def secondTimeoutOnGatewayOne_def secondHeaderOnRouteOne_def
  secondHealthOnBackendOne_def

lemma conflictAtGateway_facts:
  "Gateways conflictAtGateway idGatewayOne \<noteq> None"
  "gwn_GatewayClass (the (Gateways conflictAtGateway idGatewayOne)) \<noteq> None"
  "effectivePoliciesOfGateway exampleCapability conflictIteration conflictAtGateway idGatewayOne
     (the (Gateways conflictAtGateway idGatewayOne)) = Inl (Err ''conflict'')"
  "Gateways conflictAtGateway idGatewayTwo \<noteq> None"
  "gwn_GatewayClass (the (Gateways conflictAtGateway idGatewayTwo)) = Some idClassB"
  "gwn_EffectivePolicies (the (Gateways conflictAtGateway idGatewayTwo)) = None"
  "\<not> isl (effectivePoliciesOfGateway exampleCapability conflictIteration conflictAtGateway idGatewayTwo
           (the (Gateways conflictAtGateway idGatewayTwo)))"
  by (simp_all add: example_defs conflict_defs effectivePoliciesOfGateway_def)

lemma conflictAtHTTPRoute_facts:
  "HTTPRoutes conflictAtHTTPRoute idRouteOne \<noteq> None"
  "effectivePoliciesOfHTTPRoute exampleCapability conflictIteration conflictAtHTTPRoute idRouteOne
     (the (HTTPRoutes conflictAtHTTPRoute idRouteOne)) = Inl (Err ''conflict'')"
  by (simp_all add: example_defs conflict_defs effectivePoliciesOfHTTPRoute_def)

lemma conflictAtBackend_facts:
  "Backends conflictAtBackend idBackendOne \<noteq> None"
  "effectivePoliciesOfBackend exampleCapability conflictIteration conflictAtBackend idBackendOne
     (the (Backends conflictAtBackend idBackendOne)) = Inl (Err ''conflict'')"
  by (simp_all add: example_defs conflict_defs effectivePoliciesOfBackend_def)

lemma conflictIteration_orders:
  "rangeGateways conflictIteration = [] @ idGatewayOne # [idGatewayTwo]"
  "rangeHTTPRoutes conflictIteration = [] @ idRouteOne # [idRouteTwo]"
  "rangeBackends conflictIteration = [] @ idBackendOne # []"
  "distinct (rangeGateways conflictIteration)" "distinct (rangeHTTPRoutes conflictIteration)"
  "distinct (rangeBackends conflictIteration)"
  by (simp_all add: conflictIteration_def exampleIteration_def idGatewayOne_def idGatewayTwo_def
      idRouteOne_def idRouteTwo_def)

lemma conflictAtHTTPRoute_gateways_pass:
  "fst (calculateEffectivePoliciesForGateways exampleCapability conflictIteration conflictAtHTTPRoute)
     = None"
  by (simp add: example_defs conflict_defs calculateEffectivePoliciesForGateways_def
      effectivePoliciesOfGateway_def)


lemma effectivePoliciesOfHTTPRoute_conflict:
  "deref (Namespaces rm) (hrn_Namespace rn) \<noteq> None \<Longrightarrow>
   MergePoliciesOfSimilarKind cap
     (convertPoliciesMapToSlice (rangePolicies it (OfHTTPRoute r)) (hrn_Policies rn)) = Inl e \<Longrightarrow>
   effectivePoliciesOfHTTPRoute cap it rm r rn = Inl (Err e)"
  by (auto simp: effectivePoliciesOfHTTPRoute_def Let_def split: option.splits)

lemma conflictAtHTTPRoute_parts:
  "deref (Namespaces conflictAtHTTPRoute)
     (hrn_Namespace (the (HTTPRoutes conflictAtHTTPRoute idRouteOne))) \<noteq> None"
  "MergePoliciesOfSimilarKind exampleCapability
     (convertPoliciesMapToSlice (rangePolicies conflictIteration (OfHTTPRoute idRouteOne))
        (hrn_Policies (the (HTTPRoutes conflictAtHTTPRoute idRouteOne)))) = Inl ''conflict''"
  by (simp_all add: example_defs conflict_defs)

lemma conflictAtHTTPRoute_routes_pass:
  "fst (calculateEffectivePoliciesForHTTPRoutes exampleCapability conflictIteration
          (snd (calculateEffectivePoliciesForGateways exampleCapability conflictIteration
                  conflictAtHTTPRoute))) = Some (Err ''conflict'')"
proof -
  let ?rmG = "snd (calculateEffectivePoliciesForGateways exampleCapability conflictIteration
                     conflictAtHTTPRoute)"
  let ?rn = "the (HTTPRoutes conflictAtHTTPRoute idRouteOne)"
  have frame: "Namespaces ?rmG = Namespaces conflictAtHTTPRoute"
    "HTTPRoutes ?rmG = HTTPRoutes conflictAtHTTPRoute"
    unfolding calculateEffectivePoliciesForGateways_def by (simp_all only: gatewaysLoop_frame)
  have "deref (Namespaces ?rmG) (hrn_Namespace ?rn) \<noteq> None"
    unfolding frame(1) by (rule conflictAtHTTPRoute_parts(1))
  then have body: "effectivePoliciesOfHTTPRoute exampleCapability conflictIteration ?rmG idRouteOne ?rn
       = Inl (Err ''conflict'')"
    using conflictAtHTTPRoute_parts(2) by (rule effectivePoliciesOfHTTPRoute_conflict)
  have node: "HTTPRoutes ?rmG idRouteOne = Some ?rn"
    unfolding frame(2) using conflictAtHTTPRoute_facts(1) by simp
  have "httpRoutesLoop exampleCapability conflictIteration (idRouteOne # [idRouteTwo]) ?rmG
          = (Some (Err ''conflict''), ?rmG)"
    by (subst httpRoutesLoop.simps) (simp only: node body option.case sum.case)
  then show ?thesis
    using conflictIteration_orders(2) by (simp add: calculateEffectivePoliciesForHTTPRoutes_def)
qed


text \<open>
  The claim as stated fails: the pass returns at the first conflict. Gateway one
  carries two policies of one kind; gateway two, visited after it, could be
  resolved on its own and is left uncomputed.
\<close>

theorem remaining_gateway_counterexample:
  "fst (calculateEffectivePoliciesForGateways exampleCapability conflictIteration conflictAtGateway)
     = Some (Err ''conflict'') \<and>
   gwn_GatewayClass (the (Gateways conflictAtGateway idGatewayTwo)) = Some idClassB \<and>
   \<not> isl (effectivePoliciesOfGateway exampleCapability conflictIteration conflictAtGateway idGatewayTwo
           (the (Gateways conflictAtGateway idGatewayTwo))) \<and>
   gwn_EffectivePolicies
     (the (Gateways (snd (calculateEffectivePoliciesForGateways exampleCapability conflictIteration
                            conflictAtGateway)) idGatewayTwo)) = None"
proof -
  have one: "Gateways conflictAtGateway idGatewayOne = Some (the (Gateways conflictAtGateway idGatewayOne))"
    using conflictAtGateway_facts(1) by simp
  have "gatewaysLoop exampleCapability conflictIteration (idGatewayOne # [idGatewayTwo]) conflictAtGateway
          = (Some (Err ''conflict''), conflictAtGateway)"
    using one conflictAtGateway_facts(2,3)
    by (subst gatewaysLoop.simps) (auto split: option.splits)
  then have "calculateEffectivePoliciesForGateways exampleCapability conflictIteration conflictAtGateway
          = (Some (Err ''conflict''), conflictAtGateway)"
    using conflictIteration_orders(1) by (simp add: calculateEffectivePoliciesForGateways_def)
  then show ?thesis using conflictAtGateway_facts(5,6,7) by simp
qed

theorem conflict_stops_the_pass_witness:
  "calculateEffectivePolicies exampleCapability conflictIteration conflictAtGateway
     = (Some (Err ''conflict''), conflictAtGateway) \<and>
   calculateEffectivePoliciesForHTTPRoutes exampleCapability conflictIteration conflictAtHTTPRoute
     = (Some (Err ''conflict''), conflictAtHTTPRoute) \<and>
   calculateEffectivePoliciesForBackends exampleCapability conflictIteration conflictAtBackend
     = (Some (Err ''conflict''), conflictAtBackend) \<and>
   fst (calculateEffectivePoliciesForGateways exampleCapability conflictIteration conflictAtHTTPRoute)
     = None \<and>
   fst (calculateEffectivePolicies exampleCapability conflictIteration conflictAtHTTPRoute)
     = Some (Err ''conflict'')"
proof -
  have g: "Gateways conflictAtGateway idGatewayOne = Some (the (Gateways conflictAtGateway idGatewayOne))"
    and r: "HTTPRoutes conflictAtHTTPRoute idRouteOne = Some (the (HTTPRoutes conflictAtHTTPRoute idRouteOne))"
    and b: "Backends conflictAtBackend idBackendOne = Some (the (Backends conflictAtBackend idBackendOne))"
    using conflictAtGateway_facts(1) conflictAtHTTPRoute_facts(1) conflictAtBackend_facts(1) by simp_all
  note G = conflict_stops_the_pass[where it = conflictIteration and cap = exampleCapability
        and rm = conflictAtGateway and gsDone = "[]" and g = idGatewayOne and gsLeft = "[idGatewayTwo]"
        and rmG = conflictAtGateway and gn = "the (Gateways conflictAtGateway idGatewayOne)"
        and e = "''conflict''", THEN conjunct1, THEN mp]
  note R = conflict_stops_the_pass[where it = conflictIteration and cap = exampleCapability
        and rm = conflictAtHTTPRoute and rsDone = "[]" and r = idRouteOne and rsLeft = "[idRouteTwo]"
        and rmR = conflictAtHTTPRoute and rn = "the (HTTPRoutes conflictAtHTTPRoute idRouteOne)"
        and e = "''conflict''", THEN conjunct2, THEN conjunct1, THEN mp]
  note B = conflict_stops_the_pass[where it = conflictIteration and cap = exampleCapability
        and rm = conflictAtBackend and bsDone = "[]" and b = idBackendOne and bsLeft = "[]"
        and rmB = conflictAtBackend and bn = "the (Backends conflictAtBackend idBackendOne)"
        and e = "''conflict''", THEN conjunct2, THEN conjunct2, THEN conjunct1, THEN mp]
  note T = conflict_stops_the_pass[where it = conflictIteration and cap = exampleCapability
        and rm = conflictAtHTTPRoute and f = "Err ''conflict''",
        THEN conjunct2, THEN conjunct2, THEN conjunct2, THEN mp]
  have a1: "calculateEffectivePolicies exampleCapability conflictIteration conflictAtGateway
     = (Some (Err ''conflict''), conflictAtGateway)"
    by (rule G[THEN conjunct2, THEN conjunct1])
       (intro conjI, rule conflictIteration_orders(1), rule conflictIteration_orders(4), simp,
        rule g, rule conflictAtGateway_facts(2), rule conflictAtGateway_facts(3))
  have a2: "calculateEffectivePoliciesForHTTPRoutes exampleCapability conflictIteration conflictAtHTTPRoute
     = (Some (Err ''conflict''), conflictAtHTTPRoute)"
    by (rule R[THEN conjunct1])
       (intro conjI, rule conflictIteration_orders(2), rule conflictIteration_orders(5), simp,
        rule r, rule conflictAtHTTPRoute_facts(2))
  have a3: "calculateEffectivePoliciesForBackends exampleCapability conflictIteration conflictAtBackend
     = (Some (Err ''conflict''), conflictAtBackend)"
    by (rule B[THEN conjunct1])
       (intro conjI, rule conflictIteration_orders(3), rule conflictIteration_orders(6), simp,
        rule b, rule conflictAtBackend_facts(2))
  have "calculateEffectivePolicies exampleCapability conflictIteration conflictAtHTTPRoute
     = calculateEffectivePoliciesForHTTPRoutes exampleCapability conflictIteration
         (snd (calculateEffectivePoliciesForGateways exampleCapability conflictIteration
                 conflictAtHTTPRoute))"
    by (rule T) (intro conjI, rule conflictAtHTTPRoute_gateways_pass,
                 rule conflictAtHTTPRoute_routes_pass)
  then have a4: "fst (calculateEffectivePolicies exampleCapability conflictIteration conflictAtHTTPRoute)
     = Some (Err ''conflict'')"
    by (simp only: conflictAtHTTPRoute_routes_pass)
  show ?thesis using a1 a2 a3 a4 conflictAtHTTPRoute_gateways_pass by (intro conjI)
qed

end
